theory Spec2Isabelle
  imports Complex_Main
begin

section \<open>SEC EDGAR fraud analyzer: the quantitative core\<close>

text \<open>
  A shallow embedding of the analysis engine of the SEC fraud analyzer: the data types of
  \<^verbatim>\<open>include/sec_analyzer/types.h\<close>, the five models under \<^verbatim>\<open>src/models/\<close> and the
  aggregator \<^verbatim>\<open>src/analyzer.cpp\<close>.

  A C++ \<^verbatim>\<open>double\<close> that holds a statement figure or a score is a \<^typ>\<open>real\<close>: the
  arithmetic is exact, there is no rounding, no infinity and no NaN. The one function of
  the source that asks whether a double is finite (the digit filter of the Benford model)
  takes its input in a type of its own, \<open>double\<close> below, that has the non-finite values.
  A C++ member function becomes a function of the object's fields it reads; a field name
  that two structs share carries the struct's name as a prefix.
\<close>

subsection \<open>types.h: enumerations and configuration\<close>

datatype FilingType = UNKNOWN | K10 | K10A | Q10 | Q10A | K8 | F20

datatype RiskLevel = LOW | MODERATE | ELEVATED | HIGH | CRITICAL

datatype TrendDirection = IMPROVING | STABLE | DECLINING

text \<open>The enumerators of \<^verbatim>\<open>RiskLevel\<close> in declaration order: their underlying values.\<close>

fun risk_level_value :: "RiskLevel \<Rightarrow> nat" where
  "risk_level_value LOW = 0"
| "risk_level_value MODERATE = 1"
| "risk_level_value ELEVATED = 2"
| "risk_level_value HIGH = 3"
| "risk_level_value CRITICAL = 4"

record RiskWeights =
  w_beneish :: real
  w_altman :: real
  w_piotroski :: real
  w_fraud_triangle :: real
  w_benford :: real
  w_red_flags :: real

text \<open>The default member initialisers of \<^verbatim>\<open>RiskWeights\<close>.\<close>

definition default_RiskWeights :: RiskWeights where
  "default_RiskWeights =
     \<lparr>w_beneish = 0.30, w_altman = 0.25, w_piotroski = 0.15,
      w_fraud_triangle = 0.15, w_benford = 0.05, w_red_flags = 0.10\<rparr>"

subsection \<open>types.h: financial statements\<close>

record Filing =
  filing_cik :: string
  accession_number :: string
  accession_clean :: string
  form_type :: string
  filed_date :: string
  report_date :: string
  filing_type :: FilingType
  fiscal_year :: int
  fiscal_quarter :: int

record BalanceSheet =
  total_assets :: real
  current_assets :: real
  cash :: real
  accounts_receivable :: real
  inventory :: real
  ppe :: real
  goodwill :: real
  intangible_assets :: real
  total_liabilities :: real
  current_liabilities :: real
  accounts_payable :: real
  long_term_debt :: real
  total_equity :: real
  retained_earnings :: real
  shares_outstanding :: real

record IncomeStatement =
  revenue :: real
  cost_of_revenue :: real
  gross_profit :: real
  operating_expenses :: real
  rd_expense :: real
  sga_expense :: real
  depreciation :: real
  operating_income :: real
  interest_expense :: real
  net_income :: real
  eps :: real

record CashFlowStatement =
  operating_cash_flow :: real
  depreciation_amortization :: real
  accounts_receivable_change :: real
  inventory_change :: real
  accounts_payable_change :: real
  investing_cash_flow :: real
  capital_expenditures :: real
  financing_cash_flow :: real
  dividends_paid :: real
  stock_buybacks :: real
  net_change_in_cash :: real

record FinancialData =
  filing :: Filing
  balance_sheet :: BalanceSheet
  income_statement :: IncomeStatement
  cash_flow :: CashFlowStatement
  is_valid :: bool
  error_message :: string

text \<open>Default-constructed values: every figure 0, the filing unknown, the snapshot not valid.\<close>

definition default_Filing :: Filing where
  "default_Filing =
     \<lparr>filing_cik = [], accession_number = [], accession_clean = [], form_type = [],
      filed_date = [], report_date = [], filing_type = UNKNOWN, fiscal_year = 0,
      fiscal_quarter = 0\<rparr>"

definition default_BalanceSheet :: BalanceSheet where
  "default_BalanceSheet =
     \<lparr>total_assets = 0, current_assets = 0, cash = 0, accounts_receivable = 0,
      inventory = 0, ppe = 0, goodwill = 0, intangible_assets = 0, total_liabilities = 0,
      current_liabilities = 0, accounts_payable = 0, long_term_debt = 0, total_equity = 0,
      retained_earnings = 0, shares_outstanding = 0\<rparr>"

definition default_IncomeStatement :: IncomeStatement where
  "default_IncomeStatement =
     \<lparr>revenue = 0, cost_of_revenue = 0, gross_profit = 0, operating_expenses = 0,
      rd_expense = 0, sga_expense = 0, depreciation = 0, operating_income = 0,
      interest_expense = 0, net_income = 0, eps = 0\<rparr>"

definition default_CashFlowStatement :: CashFlowStatement where
  "default_CashFlowStatement =
     \<lparr>operating_cash_flow = 0, depreciation_amortization = 0,
      accounts_receivable_change = 0, inventory_change = 0, accounts_payable_change = 0,
      investing_cash_flow = 0, capital_expenditures = 0, financing_cash_flow = 0,
      dividends_paid = 0, stock_buybacks = 0, net_change_in_cash = 0\<rparr>"

definition default_FinancialData :: FinancialData where
  "default_FinancialData =
     \<lparr>filing = default_Filing, balance_sheet = default_BalanceSheet,
      income_statement = default_IncomeStatement, cash_flow = default_CashFlowStatement,
      is_valid = False, error_message = []\<rparr>"

text \<open>The derived ratios the models read (member functions of the statement structs).\<close>

definition debt_ratio :: "BalanceSheet \<Rightarrow> real" where
  "debt_ratio bs = (if total_assets bs > 0 then total_liabilities bs / total_assets bs else 0)"

definition gross_margin :: "IncomeStatement \<Rightarrow> real" where
  "gross_margin st = (if revenue st > 0 then gross_profit st / revenue st else 0)"

definition net_margin :: "IncomeStatement \<Rightarrow> real" where
  "net_margin st = (if revenue st > 0 then net_income st / revenue st else 0)"

subsection \<open>types.h: model results\<close>

record BeneishResult =
  m_score :: real
  dsri :: real
  gmi :: real
  aqi :: real
  sgi :: real
  depi :: real
  sgai :: real
  lvgi :: real
  tata :: real
  beneish_risk_score :: real
  likely_manipulator :: bool
  beneish_zone :: string
  flags :: "string list"

record AltmanResult =
  z_score :: real
  x1 :: real
  x2 :: real
  x3 :: real
  x4 :: real
  x5 :: real
  bankruptcy_probability :: real
  altman_risk_score :: real
  altman_zone :: string

record PiotroskiResult =
  f_score :: int
  roa_positive :: bool
  cfo_positive :: bool
  roa_increasing :: bool
  cfo_greater_than_ni :: bool
  leverage_decreasing :: bool
  current_ratio_increasing :: bool
  no_dilution :: bool
  gross_margin_increasing :: bool
  asset_turnover_increasing :: bool
  piotroski_risk_score :: real
  piotroski_interpretation :: string

record FraudTriangleResult =
  pressure_score :: real
  opportunity_score :: real
  rationalization_score :: real
  overall_risk :: real
  risk_level :: RiskLevel
  pressure_indicators :: "string list"
  opportunity_indicators :: "string list"
  rationalization_indicators :: "string list"

record BenfordResult =
  expected_distribution :: "real list"
  actual_distribution :: "real list"
  chi_square :: real
  mad :: real
  deviation_percent :: real
  is_suspicious :: bool
  anomalies :: "string list"

record RedFlag =
  flag_type :: string
  title :: string
  description :: string
  severity :: RiskLevel
  source :: string
  confidence :: real

record TrendAnalysis =
  revenue_trend :: TrendDirection
  income_trend :: TrendDirection
  cash_flow_trend :: TrendDirection
  debt_trend :: TrendDirection
  margin_trend :: TrendDirection
  observations :: "string list"

record CompanyInfo =
  name :: string
  ticker :: string
  cik :: string
  sic :: string
  industry :: string
  exchange :: string
  fiscal_year_end :: string

text \<open>
  The overall result. An absent \<^verbatim>\<open>std::optional\<close> is \<open>None\<close>.
\<close>

record AnalysisResult =
  company :: CompanyInfo
  filings_analyzed :: int
  beneish :: "BeneishResult option"
  altman :: "AltmanResult option"
  piotroski :: "PiotroskiResult option"
  fraud_triangle :: "FraudTriangleResult option"
  benford :: "BenfordResult option"
  filings :: "FinancialData list"
  composite_risk_score :: real
  overall_risk_level :: RiskLevel
  risk_summary :: string
  recommendation :: string
  red_flags :: "RedFlag list"
  trends :: TrendAnalysis
  analysis_timestamp :: string
  version :: string

definition default_CompanyInfo :: CompanyInfo where
  "default_CompanyInfo =
     \<lparr>name = [], ticker = [], cik = [], sic = [], industry = [], exchange = [],
      fiscal_year_end = []\<rparr>"

definition default_TrendAnalysis :: TrendAnalysis where
  "default_TrendAnalysis =
     \<lparr>revenue_trend = STABLE, income_trend = STABLE, cash_flow_trend = STABLE,
      debt_trend = STABLE, margin_trend = STABLE, observations = []\<rparr>"

definition default_AnalysisResult :: AnalysisResult where
  "default_AnalysisResult =
     \<lparr>company = default_CompanyInfo, filings_analyzed = 0, beneish = None, altman = None,
      piotroski = None, fraud_triangle = None, benford = None, filings = [],
      composite_risk_score = 0, overall_risk_level = LOW, risk_summary = [],
      recommendation = [], red_flags = [], trends = default_TrendAnalysis,
      analysis_timestamp = [], version = ''2.1.2''\<rparr>"

subsection \<open>Helpers of the C++ standard library\<close>

text \<open>\<^verbatim>\<open>std::clamp(v, lo, hi)\<close>: \<^verbatim>\<open>(v < lo) ? lo : (hi < v) ? hi : v\<close>.\<close>

definition clamp :: "real \<Rightarrow> real \<Rightarrow> real \<Rightarrow> real" where
  "clamp v lo hi = (if v < lo then lo else if hi < v then hi else v)"

text \<open>\<^verbatim>\<open>std::to_string\<close> of a non-negative integer: its decimal digits.\<close>

function to_string :: "nat \<Rightarrow> string" where
  "to_string n =
     (if n < 10 then [char_of (48 + n)]
      else to_string (n div 10) @ [char_of (48 + n mod 10)])"
  by pat_completeness auto
termination
  by (relation "measure (\<lambda>n. n)") auto

declare to_string.simps [simp del]

subsection \<open>models/beneish.cpp: the earnings-manipulation model\<close>

text \<open>
  \<^verbatim>\<open>safe_divide(num, denom, default_val)\<close>. The header declares \<^verbatim>\<open>default_val = 1.0\<close>:
  a call that gives two arguments passes 1, written out at each call below.
\<close>

definition beneish_safe_divide :: "real \<Rightarrow> real \<Rightarrow> real \<Rightarrow> real" where
  "beneish_safe_divide num denom default_val =
     (if \<bar>denom\<bar> < 1 / 10 ^ 10 then default_val else num / denom)"

definition calculate_dsri :: "FinancialData \<Rightarrow> FinancialData \<Rightarrow> real" where
  "calculate_dsri current prior =
     (let current_ratio = beneish_safe_divide (accounts_receivable (balance_sheet current))
                            (revenue (income_statement current)) 1;
          prior_ratio = beneish_safe_divide (accounts_receivable (balance_sheet prior))
                          (revenue (income_statement prior)) 1
      in beneish_safe_divide current_ratio prior_ratio 1)"

definition calculate_gmi :: "FinancialData \<Rightarrow> FinancialData \<Rightarrow> real" where
  "calculate_gmi current prior =
     (let current_gm = gross_margin (income_statement current);
          prior_gm = gross_margin (income_statement prior)
      in beneish_safe_divide prior_gm current_gm 1)"

definition calculate_aqi :: "FinancialData \<Rightarrow> FinancialData \<Rightarrow> real" where
  "calculate_aqi current prior =
     (let current_aq = 1 - beneish_safe_divide
                             (current_assets (balance_sheet current) + ppe (balance_sheet current))
                             (total_assets (balance_sheet current)) 0;
          prior_aq = 1 - beneish_safe_divide
                           (current_assets (balance_sheet prior) + ppe (balance_sheet prior))
                           (total_assets (balance_sheet prior)) 0
      in beneish_safe_divide current_aq prior_aq 1)"

definition calculate_sgi :: "FinancialData \<Rightarrow> FinancialData \<Rightarrow> real" where
  "calculate_sgi current prior =
     beneish_safe_divide (revenue (income_statement current)) (revenue (income_statement prior)) 1"

definition calculate_depi :: "FinancialData \<Rightarrow> FinancialData \<Rightarrow> real" where
  "calculate_depi current prior =
     (let current_rate = beneish_safe_divide (depreciation (income_statement current))
                           (depreciation (income_statement current) + ppe (balance_sheet current)) 1;
          prior_rate = beneish_safe_divide (depreciation (income_statement prior))
                         (depreciation (income_statement prior) + ppe (balance_sheet prior)) 1
      in beneish_safe_divide prior_rate current_rate 1)"

definition calculate_sgai :: "FinancialData \<Rightarrow> FinancialData \<Rightarrow> real" where
  "calculate_sgai current prior =
     (let current_ratio = beneish_safe_divide (sga_expense (income_statement current))
                            (revenue (income_statement current)) 1;
          prior_ratio = beneish_safe_divide (sga_expense (income_statement prior))
                          (revenue (income_statement prior)) 1
      in beneish_safe_divide current_ratio prior_ratio 1)"

definition calculate_lvgi :: "FinancialData \<Rightarrow> FinancialData \<Rightarrow> real" where
  "calculate_lvgi current prior =
     (let current_lev = beneish_safe_divide (total_liabilities (balance_sheet current))
                          (total_assets (balance_sheet current)) 1;
          prior_lev = beneish_safe_divide (total_liabilities (balance_sheet prior))
                        (total_assets (balance_sheet prior)) 1
      in beneish_safe_divide current_lev prior_lev 1)"

definition calculate_tata :: "FinancialData \<Rightarrow> real" where
  "calculate_tata current =
     (let accruals = net_income (income_statement current)
                       - operating_cash_flow (cash_flow current)
      in beneish_safe_divide accruals (total_assets (balance_sheet current)) 0)"

definition THRESHOLD :: real where "THRESHOLD = - 2.22"
definition INTERCEPT :: real where "INTERCEPT = - 4.84"
definition COEF_DSRI :: real where "COEF_DSRI = 0.920"
definition COEF_GMI :: real where "COEF_GMI = 0.528"
definition COEF_AQI :: real where "COEF_AQI = 0.404"
definition COEF_SGI :: real where "COEF_SGI = 0.892"
definition COEF_DEPI :: real where "COEF_DEPI = 0.115"
definition COEF_SGAI :: real where "COEF_SGAI = - 0.172"
definition COEF_TATA :: real where "COEF_TATA = 4.679"
definition COEF_LVGI :: real where "COEF_LVGI = - 0.327"

definition is_likely_manipulator :: "real \<Rightarrow> bool" where
  "is_likely_manipulator m = (m > THRESHOLD)"

definition beneish_get_zone :: "real \<Rightarrow> string" where
  "beneish_get_zone m =
     (if m > - 1.78 then ''High Risk''
      else if m > THRESHOLD then ''Elevated Risk''
      else if m > - 2.50 then ''Moderate Risk''
      else ''Low Risk'')"

definition beneish_score_to_probability :: "real \<Rightarrow> real" where
  "beneish_score_to_probability m = 1 / (1 + exp (- (m + 2.22)))"

definition beneish_probability_to_risk :: "real \<Rightarrow> real" where
  "beneish_probability_to_risk probability = clamp probability 0 1"

definition generate_flags :: "BeneishResult \<Rightarrow> string list" where
  "generate_flags result =
     (if dsri result > 1.465
      then [''High Days Sales in Receivables - potential revenue manipulation''] else [])
     @ (if gmi result > 1.193
        then [''Declining gross margins - pressure to manipulate''] else [])
     @ (if aqi result > 1.254
        then [''Increasing non-current assets - potential capitalization abuse''] else [])
     @ (if sgi result > 1.607
        then [''Rapid sales growth - higher manipulation risk''] else [])
     @ (if tata result > 0.018
        then [''High accruals relative to assets - earnings quality concern''] else [])
     @ (if lvgi result > 1.111
        then [''Increasing leverage - financial pressure''] else [])"

definition beneish_calculate :: "FinancialData \<Rightarrow> FinancialData \<Rightarrow> BeneishResult" where
  "beneish_calculate current prior =
     (let dsri' = calculate_dsri current prior;
          gmi' = calculate_gmi current prior;
          aqi' = calculate_aqi current prior;
          sgi' = calculate_sgi current prior;
          depi' = calculate_depi current prior;
          sgai' = calculate_sgai current prior;
          lvgi' = calculate_lvgi current prior;
          tata' = calculate_tata current;
          m = INTERCEPT
                + COEF_DSRI * dsri'
                + COEF_GMI * gmi'
                + COEF_AQI * aqi'
                + COEF_SGI * sgi'
                + COEF_DEPI * depi'
                + COEF_SGAI * sgai'
                + COEF_TATA * tata'
                + COEF_LVGI * lvgi';
          result = \<lparr>m_score = m, dsri = dsri', gmi = gmi', aqi = aqi', sgi = sgi',
                    depi = depi', sgai = sgai', lvgi = lvgi', tata = tata',
                    beneish_risk_score =
                      beneish_probability_to_risk (beneish_score_to_probability m),
                    likely_manipulator = is_likely_manipulator m,
                    beneish_zone = beneish_get_zone m,
                    flags = []\<rparr>
      in result\<lparr>flags := generate_flags result\<rparr>)"

subsection \<open>models/altman.cpp: the bankruptcy-risk model\<close>

text \<open>Here the header declares \<^verbatim>\<open>default_val = 0.0\<close>, and every call gives two arguments.\<close>

definition altman_safe_divide :: "real \<Rightarrow> real \<Rightarrow> real \<Rightarrow> real" where
  "altman_safe_divide num denom default_val =
     (if \<bar>denom\<bar> < 1 / 10 ^ 10 then default_val else num / denom)"

definition calculate_x1 :: "FinancialData \<Rightarrow> real" where
  "calculate_x1 data =
     (let wc = current_assets (balance_sheet data) - current_liabilities (balance_sheet data)
      in altman_safe_divide wc (total_assets (balance_sheet data)) 0)"

definition calculate_x2 :: "FinancialData \<Rightarrow> real" where
  "calculate_x2 data =
     altman_safe_divide (retained_earnings (balance_sheet data)) (total_assets (balance_sheet data)) 0"

definition calculate_x3 :: "FinancialData \<Rightarrow> real" where
  "calculate_x3 data =
     altman_safe_divide (operating_income (income_statement data))
       (total_assets (balance_sheet data)) 0"

definition calculate_x4 :: "FinancialData \<Rightarrow> real \<Rightarrow> real" where
  "calculate_x4 data market_cap =
     (let equity = (if market_cap > 0 then market_cap else total_equity (balance_sheet data))
      in altman_safe_divide equity (total_liabilities (balance_sheet data)) 0)"

definition calculate_x5 :: "FinancialData \<Rightarrow> real" where
  "calculate_x5 data =
     altman_safe_divide (revenue (income_statement data)) (total_assets (balance_sheet data)) 0"

definition SAFE_THRESHOLD :: real where "SAFE_THRESHOLD = 2.99"
definition DISTRESS_THRESHOLD :: real where "DISTRESS_THRESHOLD = 1.81"
definition COEF_X1 :: real where "COEF_X1 = 1.2"
definition COEF_X2 :: real where "COEF_X2 = 1.4"
definition COEF_X3 :: real where "COEF_X3 = 3.3"
definition COEF_X4 :: real where "COEF_X4 = 0.6"
definition COEF_X5 :: real where "COEF_X5 = 1.0"

definition altman_get_zone :: "real \<Rightarrow> string" where
  "altman_get_zone z =
     (if z > SAFE_THRESHOLD then ''Safe''
      else if z > DISTRESS_THRESHOLD then ''Gray''
      else ''Distress'')"

definition altman_score_to_probability :: "real \<Rightarrow> real" where
  "altman_score_to_probability z =
     (if z > 3.0 then 0.01
      else if z > 2.7 then 0.05
      else if z > 2.4 then 0.10
      else if z > 2.0 then 0.20
      else if z > 1.8 then 0.35
      else if z > 1.5 then 0.50
      else if z > 1.2 then 0.65
      else if z > 1.0 then 0.75
      else if z > 0.5 then 0.85
      else 0.95)"

definition altman_probability_to_risk :: "real \<Rightarrow> real" where
  "altman_probability_to_risk probability = clamp probability 0 1"

text \<open>Variant A. The header gives \<^verbatim>\<open>market_cap\<close> the default 0.\<close>

definition altman_calculate :: "FinancialData \<Rightarrow> real \<Rightarrow> AltmanResult" where
  "altman_calculate data market_cap =
     (let x1' = calculate_x1 data;
          x2' = calculate_x2 data;
          x3' = calculate_x3 data;
          x4' = calculate_x4 data market_cap;
          x5' = calculate_x5 data;
          z = COEF_X1 * x1' + COEF_X2 * x2' + COEF_X3 * x3' + COEF_X4 * x4' + COEF_X5 * x5';
          p = altman_score_to_probability z
      in \<lparr>z_score = z, x1 = x1', x2 = x2', x3 = x3', x4 = x4', x5 = x5',
          bankruptcy_probability = p,
          altman_risk_score = altman_probability_to_risk p,
          altman_zone = altman_get_zone z\<rparr>)"

text \<open>Variant B (\<^verbatim>\<open>AltmanZPrimeModel\<close>), with thresholds of its own.\<close>

definition ZPRIME_SAFE_THRESHOLD :: real where "ZPRIME_SAFE_THRESHOLD = 2.60"
definition ZPRIME_DISTRESS_THRESHOLD :: real where "ZPRIME_DISTRESS_THRESHOLD = 1.10"

definition zprime_calculate :: "FinancialData \<Rightarrow> AltmanResult" where
  "zprime_calculate data =
     (let wc = current_assets (balance_sheet data) - current_liabilities (balance_sheet data);
          x1' = (if total_assets (balance_sheet data) > 0
                 then wc / total_assets (balance_sheet data) else 0);
          x2' = (if total_assets (balance_sheet data) > 0
                 then retained_earnings (balance_sheet data) / total_assets (balance_sheet data)
                 else 0);
          x3' = (if total_assets (balance_sheet data) > 0
                 then operating_income (income_statement data) / total_assets (balance_sheet data)
                 else 0);
          x4' = (if total_liabilities (balance_sheet data) > 0
                 then total_equity (balance_sheet data) / total_liabilities (balance_sheet data)
                 else 0);
          z = 6.56 * x1' + 3.26 * x2' + 6.72 * x3' + 1.05 * x4';
          p = altman_score_to_probability z
      in \<lparr>z_score = z, x1 = x1', x2 = x2', x3 = x3', x4 = x4', x5 = 0,
          bankruptcy_probability = p,
          altman_risk_score = clamp p 0 1,
          altman_zone = (if z > ZPRIME_SAFE_THRESHOLD then ''Safe''
                         else if z > ZPRIME_DISTRESS_THRESHOLD then ''Gray''
                         else ''Distress'')\<rparr>)"

subsection \<open>models/piotroski.cpp: the financial-strength model\<close>

definition calculate_roa :: "FinancialData \<Rightarrow> real" where
  "calculate_roa data =
     (if \<bar>total_assets (balance_sheet data)\<bar> < 1 / 10 ^ 10 then 0
      else net_income (income_statement data) / total_assets (balance_sheet data))"

definition calculate_leverage :: "FinancialData \<Rightarrow> real" where
  "calculate_leverage data =
     (if \<bar>total_assets (balance_sheet data)\<bar> < 1 / 10 ^ 10 then 0
      else long_term_debt (balance_sheet data) / total_assets (balance_sheet data))"

definition calculate_current_ratio :: "FinancialData \<Rightarrow> real" where
  "calculate_current_ratio data =
     (if \<bar>current_liabilities (balance_sheet data)\<bar> < 1 / 10 ^ 10 then 0
      else current_assets (balance_sheet data) / current_liabilities (balance_sheet data))"

definition calculate_gross_margin :: "FinancialData \<Rightarrow> real" where
  "calculate_gross_margin data =
     (if \<bar>revenue (income_statement data)\<bar> < 1 / 10 ^ 10 then 0
      else gross_profit (income_statement data) / revenue (income_statement data))"

definition calculate_asset_turnover :: "FinancialData \<Rightarrow> real" where
  "calculate_asset_turnover data =
     (if \<bar>total_assets (balance_sheet data)\<bar> < 1 / 10 ^ 10 then 0
      else revenue (income_statement data) / total_assets (balance_sheet data))"

definition check_roa_positive :: "FinancialData \<Rightarrow> int" where
  "check_roa_positive current = (if net_income (income_statement current) > 0 then 1 else 0)"

definition check_cfo_positive :: "FinancialData \<Rightarrow> int" where
  "check_cfo_positive current = (if operating_cash_flow (cash_flow current) > 0 then 1 else 0)"

definition check_roa_increasing :: "FinancialData \<Rightarrow> FinancialData \<Rightarrow> int" where
  "check_roa_increasing current prior =
     (if calculate_roa current > calculate_roa prior then 1 else 0)"

definition check_quality_of_earnings :: "FinancialData \<Rightarrow> int" where
  "check_quality_of_earnings current =
     (if operating_cash_flow (cash_flow current) > net_income (income_statement current)
      then 1 else 0)"

definition check_leverage_decreasing :: "FinancialData \<Rightarrow> FinancialData \<Rightarrow> int" where
  "check_leverage_decreasing current prior =
     (if calculate_leverage current < calculate_leverage prior then 1 else 0)"

definition check_liquidity_increasing :: "FinancialData \<Rightarrow> FinancialData \<Rightarrow> int" where
  "check_liquidity_increasing current prior =
     (if calculate_current_ratio current > calculate_current_ratio prior then 1 else 0)"

definition check_no_dilution :: "FinancialData \<Rightarrow> FinancialData \<Rightarrow> int" where
  "check_no_dilution current prior =
     (if shares_outstanding (balance_sheet current) \<le> shares_outstanding (balance_sheet prior)
      then 1 else 0)"

definition check_gross_margin_increasing :: "FinancialData \<Rightarrow> FinancialData \<Rightarrow> int" where
  "check_gross_margin_increasing current prior =
     (if calculate_gross_margin current > calculate_gross_margin prior then 1 else 0)"

definition check_asset_turnover_increasing :: "FinancialData \<Rightarrow> FinancialData \<Rightarrow> int" where
  "check_asset_turnover_increasing current prior =
     (if calculate_asset_turnover current > calculate_asset_turnover prior then 1 else 0)"

definition WEAK_THRESHOLD :: int where "WEAK_THRESHOLD = 3"
definition STRONG_THRESHOLD :: int where "STRONG_THRESHOLD = 7"

definition get_interpretation :: "int \<Rightarrow> string" where
  "get_interpretation f =
     (if f \<ge> STRONG_THRESHOLD then ''Strong''
      else if f > WEAK_THRESHOLD then ''Moderate''
      else ''Weak'')"

definition score_to_risk :: "int \<Rightarrow> real" where
  "score_to_risk f = clamp (1 - real_of_int f / 9) 0 1"

text \<open>
  The nine checks return 0 or 1; the result keeps each as a \<^verbatim>\<open>bool\<close> (non-zero is true)
  and the score adds the flags up again (true is 1).
\<close>

definition piotroski_calculate :: "FinancialData \<Rightarrow> FinancialData \<Rightarrow> PiotroskiResult" where
  "piotroski_calculate current prior =
     (let b1 = (check_roa_positive current \<noteq> 0);
          b2 = (check_cfo_positive current \<noteq> 0);
          b3 = (check_roa_increasing current prior \<noteq> 0);
          b4 = (check_quality_of_earnings current \<noteq> 0);
          b5 = (check_leverage_decreasing current prior \<noteq> 0);
          b6 = (check_liquidity_increasing current prior \<noteq> 0);
          b7 = (check_no_dilution current prior \<noteq> 0);
          b8 = (check_gross_margin_increasing current prior \<noteq> 0);
          b9 = (check_asset_turnover_increasing current prior \<noteq> 0);
          f = of_bool b1 + of_bool b2 + of_bool b3 + of_bool b4 + of_bool b5
                + of_bool b6 + of_bool b7 + of_bool b8 + of_bool b9
      in \<lparr>f_score = f, roa_positive = b1, cfo_positive = b2, roa_increasing = b3,
          cfo_greater_than_ni = b4, leverage_decreasing = b5, current_ratio_increasing = b6,
          no_dilution = b7, gross_margin_increasing = b8, asset_turnover_increasing = b9,
          piotroski_risk_score = score_to_risk f,
          piotroski_interpretation = get_interpretation f\<rparr>)"

subsection \<open>models/fraud_triangle.cpp: the risk-factor heuristic model\<close>

text \<open>
  A loop that counts the elements (or the positions \<^verbatim>\<open>i = 1 .. size - 1\<close>) that pass a
  test is the length of the filtered list; a loop that returns true at the first element
  that passes a test, and false after the last, is \<^const>\<open>list_ex\<close>. The positions read
  are in range: \<open>i\<close> and \<open>i - 1\<close> with \<open>1 \<le> i < size\<close>, and 0 on a non-empty list.
\<close>

definition normalize_score :: "real \<Rightarrow> real \<Rightarrow> real" where
  "normalize_score raw_score max_indicators =
     (if max_indicators \<le> 0 then 0 else clamp (raw_score / max_indicators) 0 1)"

text \<open>
  The counter \<^verbatim>\<open>declining_periods\<close> of \<^verbatim>\<open>check_declining_revenue\<close> after its loop
  \<^verbatim>\<open>for (size_t i = 1; i < financials.size(); ++i)\<close>.
\<close>

definition declining_revenue_periods :: "FinancialData list \<Rightarrow> int" where
  "declining_revenue_periods financials =
     int (length (filter
       (\<lambda>i. revenue (income_statement (financials ! i))
              < revenue (income_statement (financials ! (i - 1))))
       [1..<length financials]))"

definition check_declining_revenue :: "FinancialData list \<Rightarrow> bool" where
  "check_declining_revenue financials =
     (if length financials < 2 then False
      else
        (let declining_periods = declining_revenue_periods financials
         in declining_periods \<ge> int (length financials) div 2))"

definition check_declining_margins :: "FinancialData list \<Rightarrow> bool" where
  "check_declining_margins financials =
     (if length financials < 2 then False
      else
        (let declining_periods =
               int (length (filter
                 (\<lambda>i. let current_margin = gross_margin (income_statement (financials ! i));
                          prior_margin = gross_margin (income_statement (financials ! (i - 1)))
                      in current_margin < prior_margin)
                 [1..<length financials]))
         in declining_periods \<ge> int (length financials) div 2))"

definition check_high_leverage :: "FinancialData \<Rightarrow> bool" where
  "check_high_leverage data = (debt_ratio (balance_sheet data) > 0.6)"

definition check_negative_cash_flow :: "FinancialData \<Rightarrow> bool" where
  "check_negative_cash_flow data = (operating_cash_flow (cash_flow data) < 0)"

definition check_earnings_miss_pattern :: "FinancialData list \<Rightarrow> bool" where
  "check_earnings_miss_pattern financials =
     (if length financials < 3 then False
      else
        (let near_misses =
               int (length (filter
                 (\<lambda>f. let margin = net_margin (income_statement f)
                      in margin > 0 \<and> margin < 0.02)
                 financials))
         in near_misses \<ge> 2))"

definition detect_pressure_indicators :: "FinancialData list \<Rightarrow> string list" where
  "detect_pressure_indicators financials =
     (if financials = [] then []
      else
        (if check_declining_revenue financials then [''Declining revenue trend''] else [])
        @ (if check_declining_margins financials then [''Declining profit margins''] else [])
        @ (if check_high_leverage (financials ! 0) then [''High leverage ratio''] else [])
        @ (if check_negative_cash_flow (financials ! 0)
           then [''Negative operating cash flow''] else [])
        @ (if check_earnings_miss_pattern financials
           then [''Pattern of barely meeting earnings targets''] else []))"

definition calculate_pressure_score :: "FinancialData list \<Rightarrow> real" where
  "calculate_pressure_score financials =
     normalize_score (real (length (detect_pressure_indicators financials))) 5"

definition check_complex_structure :: "FinancialData list \<Rightarrow> bool" where
  "check_complex_structure financials =
     (if financials = [] then False
      else
        (let bs = balance_sheet (financials ! 0)
         in if total_assets bs > 0
            then (let intangible_ratio = (goodwill bs + intangible_assets bs) / total_assets bs
                  in intangible_ratio > 0.3)
            else False))"

definition check_unusual_transactions :: "FinancialData list \<Rightarrow> bool" where
  "check_unusual_transactions financials =
     (if length financials < 2 then False
      else list_ex
        (\<lambda>i. let ar_change =
                   (if accounts_receivable (balance_sheet (financials ! (i - 1))) > 0
                    then (accounts_receivable (balance_sheet (financials ! i))
                            - accounts_receivable (balance_sheet (financials ! (i - 1))))
                         / accounts_receivable (balance_sheet (financials ! (i - 1)))
                    else 0);
                 inv_change =
                   (if inventory (balance_sheet (financials ! (i - 1))) > 0
                    then (inventory (balance_sheet (financials ! i))
                            - inventory (balance_sheet (financials ! (i - 1))))
                         / inventory (balance_sheet (financials ! (i - 1)))
                    else 0)
             in ar_change > 0.5 \<or> inv_change > 0.5)
        [1..<length financials])"

definition check_estimate_changes :: "FinancialData list \<Rightarrow> bool" where
  "check_estimate_changes financials =
     (if length financials < 2 then False
      else list_ex
        (\<lambda>i. let curr_depr_rate =
                   (if ppe (balance_sheet (financials ! i)) > 0
                    then depreciation (income_statement (financials ! i))
                         / ppe (balance_sheet (financials ! i))
                    else 0);
                 prior_depr_rate =
                   (if ppe (balance_sheet (financials ! (i - 1))) > 0
                    then depreciation (income_statement (financials ! (i - 1)))
                         / ppe (balance_sheet (financials ! (i - 1)))
                    else 0)
             in prior_depr_rate > 0
                \<and> \<bar>curr_depr_rate - prior_depr_rate\<bar> / prior_depr_rate > 0.3)
        [1..<length financials])"

definition detect_opportunity_indicators :: "FinancialData list \<Rightarrow> string list" where
  "detect_opportunity_indicators financials =
     (if check_complex_structure financials
      then [''Complex organizational structure (high intangibles)''] else [])
     @ (if check_unusual_transactions financials
        then [''Unusual changes in receivables or inventory''] else [])
     @ (if check_estimate_changes financials
        then [''Significant changes in accounting estimates''] else [])"

definition calculate_opportunity_score :: "FinancialData list \<Rightarrow> real" where
  "calculate_opportunity_score financials =
     normalize_score (real (length (detect_opportunity_indicators financials))) 3"

definition check_aggressive_accounting :: "FinancialData list \<Rightarrow> bool" where
  "check_aggressive_accounting financials =
     (if financials = [] then False
      else list_ex
        (\<lambda>f. net_income (income_statement f) > 0
             \<and> operating_cash_flow (cash_flow f) > 0
             \<and> net_income (income_statement f) > operating_cash_flow (cash_flow f) * 1.5)
        financials)"

definition check_boundary_cases :: "FinancialData list \<Rightarrow> bool" where
  "check_boundary_cases financials =
     (let boundary_count =
            int (length (filter
              (\<lambda>f. let margin = net_margin (income_statement f)
                   in margin > 0 \<and> margin < 0.01)
              financials))
      in boundary_count \<ge> 2)"

definition detect_rationalization_indicators :: "FinancialData list \<Rightarrow> string list" where
  "detect_rationalization_indicators financials =
     (if check_aggressive_accounting financials
      then [''Aggressive accounting (income >> cash flow)''] else [])
     @ (if check_boundary_cases financials
        then [''Earnings consistently at boundary levels''] else [])"

definition calculate_rationalization_score :: "FinancialData list \<Rightarrow> real" where
  "calculate_rationalization_score financials =
     normalize_score (real (length (detect_rationalization_indicators financials))) 2"

definition HIGH_RISK_THRESHOLD :: real where "HIGH_RISK_THRESHOLD = 0.7"
definition MODERATE_RISK_THRESHOLD :: real where "MODERATE_RISK_THRESHOLD = 0.4"
definition LOW_RISK_THRESHOLD :: real where "LOW_RISK_THRESHOLD = 0.2"
definition PRESSURE_WEIGHT :: real where "PRESSURE_WEIGHT = 0.35"
definition OPPORTUNITY_WEIGHT :: real where "OPPORTUNITY_WEIGHT = 0.35"
definition RATIONALIZATION_WEIGHT :: real where "RATIONALIZATION_WEIGHT = 0.30"

definition fraud_triangle_determine_risk_level :: "real \<Rightarrow> RiskLevel" where
  "fraud_triangle_determine_risk_level overall_score =
     (if overall_score \<ge> HIGH_RISK_THRESHOLD then HIGH
      else if overall_score \<ge> MODERATE_RISK_THRESHOLD then MODERATE
      else if overall_score \<ge> LOW_RISK_THRESHOLD then ELEVATED
      else LOW)"

definition fraud_triangle_calculate :: "FinancialData list \<Rightarrow> FraudTriangleResult" where
  "fraud_triangle_calculate financials =
     (let p = calculate_pressure_score financials;
          opp = calculate_opportunity_score financials;
          r = calculate_rationalization_score financials;
          overall = PRESSURE_WEIGHT * p + OPPORTUNITY_WEIGHT * opp + RATIONALIZATION_WEIGHT * r
      in \<lparr>pressure_score = p, opportunity_score = opp, rationalization_score = r,
          overall_risk = overall,
          risk_level = fraud_triangle_determine_risk_level overall,
          pressure_indicators = detect_pressure_indicators financials,
          opportunity_indicators = detect_opportunity_indicators financials,
          rationalization_indicators = detect_rationalization_indicators financials\<rparr>)"

subsection \<open>models/benford.cpp: the digit-distribution model\<close>

text \<open>
  The values the model is given are doubles that may be infinite or NaN:
  \<^verbatim>\<open>std::isfinite\<close> is the first test of the filter.
\<close>

datatype double = Finite real | PosInf | NegInf | NaN

fun isfinite :: "double \<Rightarrow> bool" where
  "isfinite (Finite r) = True"
| "isfinite _ = False"

text \<open>\<^verbatim>\<open>std::isfinite(value) && std::abs(value) >= 1.0\<close>; the second test is read only
  when the first holds.\<close>

fun is_valid_value :: "double \<Rightarrow> bool" where
  "is_valid_value (Finite r) = (\<bar>r\<bar> \<ge> 1)"
| "is_valid_value v = False"

definition EXPECTED :: "real list" where
  "EXPECTED = [0.301, 0.176, 0.125, 0.097, 0.079, 0.067, 0.058, 0.051, 0.046]"

definition get_expected_distribution :: "real list" where
  "get_expected_distribution = EXPECTED"

text \<open>
  The two normalising loops of \<^verbatim>\<open>extract_first_digit\<close>. The first,
  \<^verbatim>\<open>while (value >= 10.0) value /= 10.0\<close>, ends on every real. The second,
  \<^verbatim>\<open>while (value < 1.0) value *= 10.0\<close>, does not end on a value that is not positive,
  so its result is an option: \<open>None\<close> is the loop that never ends.
\<close>

function first_digit_loop_down :: "real \<Rightarrow> real" where
  "first_digit_loop_down v = (if v \<ge> 10 then first_digit_loop_down (v / 10) else v)"
  by pat_completeness auto
termination
proof (relation "measure (\<lambda>v. nat \<lfloor>v\<rfloor>)")
  show "wf (measure (\<lambda>v::real. nat \<lfloor>v\<rfloor>))" by simp
next
  fix v :: real
  assume v: "10 \<le> v"
  have "v / 10 + 1 \<le> v" using v by simp
  then have a: "\<lfloor>v / 10\<rfloor> + 1 \<le> \<lfloor>v\<rfloor>" by linarith
  have b: "0 \<le> \<lfloor>v / 10\<rfloor>" using v by simp
  have "nat \<lfloor>v / 10\<rfloor> < nat \<lfloor>v\<rfloor>" using a b by linarith
  then show "(v / 10, v) \<in> measure (\<lambda>v. nat \<lfloor>v\<rfloor>)" by simp
qed

declare first_digit_loop_down.simps [simp del]

partial_function (option) first_digit_loop_up :: "real \<Rightarrow> real option" where
  "first_digit_loop_up v = (if v < 1 then first_digit_loop_up (v * 10) else Some v)"

declare first_digit_loop_up.simps [code]

text \<open>\<^verbatim>\<open>static_cast<int>\<close> of a value that is at least 1 is its floor.\<close>

fun extract_first_digit :: "double \<Rightarrow> int option" where
  "extract_first_digit (Finite r) =
     (if \<not> is_valid_value (Finite r) then Some 0
      else
        (case first_digit_loop_up (first_digit_loop_down \<bar>r\<bar>) of
           None \<Rightarrow> None
         | Some v \<Rightarrow>
             (let digit = \<lfloor>v\<rfloor>
              in Some (if digit \<ge> 1 \<and> digit \<le> 9 then digit else 0))))"
| "extract_first_digit v = Some 0"

text \<open>The counting loop of \<^verbatim>\<open>calculate_actual_distribution\<close>: the nine counters and the total.\<close>

fun count_first_digits :: "double list \<Rightarrow> int list \<times> int \<Rightarrow> (int list \<times> int) option" where
  "count_first_digits [] acc = Some acc"
| "count_first_digits (v # vs) (counts, n_total) =
     (case extract_first_digit v of
        None \<Rightarrow> None
      | Some digit \<Rightarrow>
          (if digit \<ge> 1 \<and> digit \<le> 9
           then count_first_digits vs
                  (counts[nat (digit - 1) := counts ! nat (digit - 1) + 1], n_total + 1)
           else count_first_digits vs (counts, n_total)))"

definition calculate_actual_distribution :: "double list \<Rightarrow> real list option" where
  "calculate_actual_distribution vals =
     (case count_first_digits vals ([0, 0, 0, 0, 0, 0, 0, 0, 0], 0) of
        None \<Rightarrow> None
      | Some (counts, n_total) \<Rightarrow>
          Some (map (\<lambda>i. if n_total > 0 then real_of_int (counts ! i) / real_of_int n_total
                         else 0)
                  [0..<9]))"

definition calculate_chi_square :: "real list \<Rightarrow> real list \<Rightarrow> nat \<Rightarrow> real" where
  "calculate_chi_square expected actual n =
     foldl (\<lambda>chi_sq i.
              (let exp_count = expected ! i * real n;
                   act_count = actual ! i * real n
               in if exp_count > 0 then chi_sq + (act_count - exp_count)\<^sup>2 / exp_count
                  else chi_sq))
       0 [0..<9]"

definition calculate_mad :: "real list \<Rightarrow> real list \<Rightarrow> real" where
  "calculate_mad expected actual =
     foldl (\<lambda>acc i. acc + \<bar>actual ! i - expected ! i\<bar>) 0 [0..<9] / 9"

definition identify_suspicious_digits :: "real list \<Rightarrow> real list \<Rightarrow> nat \<Rightarrow> int list" where
  "identify_suspicious_digits expected actual n =
     map (\<lambda>i. int i + 1)
       (filter (\<lambda>i. let p = expected ! i;
                        p_hat = actual ! i;
                        se = sqrt (p * (1 - p) / real n)
                    in se > 0 \<and> \<bar>p_hat - p\<bar> / se > 2.576)
          [0..<9])"

definition MAD_CLOSE_CONFORMITY :: real where "MAD_CLOSE_CONFORMITY = 0.006"
definition MAD_ACCEPTABLE :: real where "MAD_ACCEPTABLE = 0.012"
definition MAD_MARGINALLY_ACCEPTABLE :: real where "MAD_MARGINALLY_ACCEPTABLE = 0.015"
definition MAD_NONCONFORMITY :: real where "MAD_NONCONFORMITY = 0.015"

definition benford_is_suspicious :: "real \<Rightarrow> bool" where
  "benford_is_suspicious mad' = (mad' > MAD_MARGINALLY_ACCEPTABLE)"

definition get_conformity_level :: "real \<Rightarrow> string" where
  "get_conformity_level mad' =
     (if mad' \<le> MAD_CLOSE_CONFORMITY then ''Close Conformity''
      else if mad' \<le> MAD_ACCEPTABLE then ''Acceptable Conformity''
      else if mad' \<le> MAD_MARGINALLY_ACCEPTABLE then ''Marginally Acceptable''
      else ''Nonconformity'')"

definition mad_to_risk :: "real \<Rightarrow> real" where
  "mad_to_risk mad' = clamp (mad' / 0.02) 0 1"

definition benford_calculate :: "double list \<Rightarrow> BenfordResult option" where
  "benford_calculate vals =
     (let expected = get_expected_distribution
      in case calculate_actual_distribution vals of
           None \<Rightarrow> None
         | Some actual \<Rightarrow>
             (let n = length (filter is_valid_value vals);
                  result = \<lparr>expected_distribution = expected, actual_distribution = actual,
                            chi_square = 0, mad = 0, deviation_percent = 0,
                            is_suspicious = False, anomalies = []\<rparr>;
                  result' =
                    (if n > 0
                     then result
                            \<lparr>chi_square := calculate_chi_square expected actual n,
                             mad := calculate_mad expected actual,
                             deviation_percent := calculate_mad expected actual * 100,
                             anomalies :=
                               map (\<lambda>digit. ''Digit '' @ to_string (nat digit)
                                             @ '' significantly deviates from expected'')
                                 (identify_suspicious_digits expected actual n)\<rparr>
                     else result)
              in Some (result'\<lparr>is_suspicious := benford_is_suspicious (mad result')\<rparr>)))"

subsection \<open>analyzer.cpp: the aggregator\<close>

text \<open>
  The state of a \<^verbatim>\<open>FraudAnalyzer\<close> that an analysis reads and writes: the configured
  weights and the last error. (The fetcher and the five model objects hold no data that
  \<^verbatim>\<open>analyze_financials\<close> reads.)
\<close>

record FraudAnalyzer =
  weights :: RiskWeights
  last_error :: string

definition get_last_error :: "FraudAnalyzer \<Rightarrow> string" where
  "get_last_error self = last_error self"

definition has_error :: "FraudAnalyzer \<Rightarrow> bool" where
  "has_error self = (last_error self \<noteq> [])"

definition detect_red_flags :: "AnalysisResult \<Rightarrow> RedFlag list" where
  "detect_red_flags result =
     (case beneish result of
        None \<Rightarrow> []
      | Some b \<Rightarrow>
          if likely_manipulator b
          then [\<lparr>flag_type = ''EARNINGS_MANIPULATION'',
                 title = ''Beneish M-Score Above Threshold'',
                 description = ''M-Score indicates potential earnings manipulation'',
                 severity = HIGH, source = ''Beneish Model'', confidence = 0.9\<rparr>]
          else [])
     @ (case altman result of
          None \<Rightarrow> []
        | Some a \<Rightarrow>
            if z_score a < 1.81
            then [\<lparr>flag_type = ''BANKRUPTCY_RISK'',
                   title = ''Altman Z-Score in Distress Zone'',
                   description = ''High probability of bankruptcy within 2 years'',
                   severity = HIGH, source = ''Altman Model'', confidence = 0.85\<rparr>]
            else [])
     @ (case piotroski result of
          None \<Rightarrow> []
        | Some p \<Rightarrow>
            if f_score p \<le> 3
            then [\<lparr>flag_type = ''WEAK_FUNDAMENTALS'',
                   title = ''Low Piotroski F-Score'',
                   description = ''Financial fundamentals indicate weakness'',
                   severity = ELEVATED, source = ''Piotroski Model'', confidence = 0.7\<rparr>]
            else [])
     @ (case fraud_triangle result of
          None \<Rightarrow> []
        | Some t \<Rightarrow>
            if overall_risk t > 0.6
            then [\<lparr>flag_type = ''FRAUD_TRIANGLE'',
                   title = ''High Fraud Triangle Risk'',
                   description = ''Multiple fraud risk factors detected'',
                   severity = HIGH, source = ''Fraud Triangle Model'', confidence = 0.8\<rparr>]
            else [])
     @ (case benford result of
          None \<Rightarrow> []
        | Some d \<Rightarrow>
            if is_suspicious d
            then [\<lparr>flag_type = ''BENFORD_ANOMALY'',
                   title = ''Benford's Law Deviation'',
                   description = ''Unusual digit distribution in financial figures'',
                   severity = ELEVATED, source = ''Benford Model'', confidence = 0.65\<rparr>]
            else [])"

text \<open>\<^verbatim>\<open>front()\<close> and \<^verbatim>\<open>back()\<close> are read only on a list of two or more.\<close>

definition analyze_trends :: "FinancialData list \<Rightarrow> TrendAnalysis" where
  "analyze_trends financials =
     (if length financials < 2 then default_TrendAnalysis
      else
        (let recent = hd financials;
             prior = last financials;
             t1 = (if revenue (income_statement recent) > revenue (income_statement prior) * 1.05
                   then default_TrendAnalysis\<lparr>revenue_trend := IMPROVING\<rparr>
                   else if revenue (income_statement recent)
                             < revenue (income_statement prior) * 0.95
                   then default_TrendAnalysis\<lparr>revenue_trend := DECLINING\<rparr>
                   else default_TrendAnalysis)
         in if net_income (income_statement recent) > net_income (income_statement prior) * 1.05
            then t1\<lparr>income_trend := IMPROVING\<rparr>
            else if net_income (income_statement recent)
                      < net_income (income_statement prior) * 0.95
            then t1\<lparr>income_trend := DECLINING\<rparr>
            else t1))"

definition extract_all_values :: "FinancialData list \<Rightarrow> double list" where
  "extract_all_values financials =
     concat (map (\<lambda>f. [Finite (revenue (income_statement f)),
                        Finite (net_income (income_statement f)),
                        Finite (total_assets (balance_sheet f)),
                        Finite (total_liabilities (balance_sheet f)),
                        Finite (operating_cash_flow (cash_flow f))])
               financials)"

text \<open>
  \<^verbatim>\<open>calculate_composite_score\<close> reads the analyzer's weights and the result.
  \<^verbatim>\<open>std::min(1.0, x)\<close> and \<^verbatim>\<open>std::max(0.0, x)\<close> are \<^const>\<open>min\<close> and \<^const>\<open>max\<close>.
\<close>

definition calculate_composite_score :: "RiskWeights \<Rightarrow> AnalysisResult \<Rightarrow> real" where
  "calculate_composite_score w result =
     (let score0 = 0;
          score1 = (case beneish result of
                      None \<Rightarrow> score0
                    | Some b \<Rightarrow> score0 + w_beneish w * beneish_risk_score b);
          score2 = (case altman result of
                      None \<Rightarrow> score1
                    | Some a \<Rightarrow> score1 + w_altman w * altman_risk_score a);
          score3 = (case piotroski result of
                      None \<Rightarrow> score2
                    | Some p \<Rightarrow> score2 + w_piotroski w * piotroski_risk_score p);
          score4 = (case fraud_triangle result of
                      None \<Rightarrow> score3
                    | Some t \<Rightarrow> score3 + w_fraud_triangle w * overall_risk t);
          score5 = (case benford result of
                      None \<Rightarrow> score4
                    | Some d \<Rightarrow>
                        (let benford_risk = (if is_suspicious d then 0.8 else 0.2)
                         in score4 + w_benford w * benford_risk));
          flag_risk = min 1 (real (length (red_flags result)) / 5);
          score6 = score5 + w_red_flags w * flag_risk
      in min 1 (max 0 score6))"

definition determine_risk_level :: "real \<Rightarrow> RiskLevel" where
  "determine_risk_level score =
     (if score \<ge> 0.8 then CRITICAL
      else if score \<ge> 0.6 then HIGH
      else if score \<ge> 0.4 then ELEVATED
      else if score \<ge> 0.2 then MODERATE
      else LOW)"

definition generate_recommendation :: "AnalysisResult \<Rightarrow> string" where
  "generate_recommendation result =
     (case overall_risk_level result of
        CRITICAL \<Rightarrow> ''CRITICAL RISK: Multiple fraud indicators detected. Recommend immediate detailed investigation.''
      | HIGH \<Rightarrow> ''HIGH RISK: Significant fraud indicators present. Exercise extreme caution and conduct thorough due diligence.''
      | ELEVATED \<Rightarrow> ''ELEVATED RISK: Some concerning indicators detected. Recommend additional scrutiny of financial statements.''
      | MODERATE \<Rightarrow> ''MODERATE RISK: Minor concerns noted. Standard due diligence procedures recommended.''
      | LOW \<Rightarrow> ''LOW RISK: No significant fraud indicators detected. Financial statements appear consistent with expected patterns.'')"

text \<open>
  \<^verbatim>\<open>analyze_financials\<close>. The time stamp that \<^verbatim>\<open>util::get_timestamp()\<close> reads from the
  clock is an argument. The function returns the result and the analyzer's state after the
  call; \<open>None\<close> stands for a call that does not return (the digit loop of the Benford
  model).
\<close>

definition analyze_financials ::
  "FraudAnalyzer \<Rightarrow> string \<Rightarrow> FinancialData list \<Rightarrow> CompanyInfo
     \<Rightarrow> (AnalysisResult \<times> FraudAnalyzer) option" where
  "analyze_financials self timestamp financials company' =
     (let result = default_AnalysisResult
                     \<lparr>company := company', filings := financials,
                      filings_analyzed := int (length financials),
                      analysis_timestamp := timestamp\<rparr>
      in if length financials < 2
         then Some (result, self\<lparr>last_error := ''Insufficient financial data for analysis''\<rparr>)
         else
           (let r1 = result
                       \<lparr>beneish := Some (beneish_calculate (financials ! 0) (financials ! 1)),
                        altman := Some (altman_calculate (financials ! 0) 0),
                        piotroski := Some (piotroski_calculate (financials ! 0) (financials ! 1)),
                        fraud_triangle := Some (fraud_triangle_calculate financials)\<rparr>
            in case benford_calculate (extract_all_values financials) of
                 None \<Rightarrow> None
               | Some d \<Rightarrow>
                   (let r2 = r1\<lparr>benford := Some d\<rparr>;
                        r3 = r2\<lparr>red_flags := detect_red_flags r2\<rparr>;
                        r4 = r3\<lparr>trends := analyze_trends financials\<rparr>;
                        r5 = r4\<lparr>composite_risk_score :=
                                   calculate_composite_score (weights self) r4\<rparr>;
                        r6 = r5\<lparr>overall_risk_level :=
                                   determine_risk_level (composite_risk_score r5)\<rparr>;
                        r7 = r6\<lparr>recommendation := generate_recommendation r6\<rparr>;
                        r8 = r7\<lparr>risk_summary :=
                                   ''Analysis complete with ''
                                   @ to_string (length (red_flags r7))
                                   @ '' red flags detected.''\<rparr>
                    in Some (r8, self))))"

subsection \<open>Snapshots used as concrete inputs\<close>

text \<open>The snapshot of the specification's bankruptcy scenario; every other figure is 0.\<close>

definition scenario_snapshot :: FinancialData where
  "scenario_snapshot =
     default_FinancialData
       \<lparr>balance_sheet := default_BalanceSheet
          \<lparr>total_assets := 1000, current_assets := 600, current_liabilities := 400,
           retained_earnings := 200, total_equity := 500, total_liabilities := 500\<rparr>,
        income_statement := default_IncomeStatement
          \<lparr>revenue := 900, operating_income := 150\<rparr>,
        is_valid := True\<rparr>"

text \<open>A snapshot whose total assets are negative: working capital 200 over assets of -1000.\<close>

definition negative_assets_snapshot :: FinancialData where
  "negative_assets_snapshot =
     default_FinancialData
       \<lparr>balance_sheet := default_BalanceSheet
          \<lparr>total_assets := - 1000, current_assets := 600, current_liabilities := 400\<rparr>,
        is_valid := True\<rparr>"

text \<open>A period with a profit of 100 and an operating cash flow of -50.\<close>

definition cash_burning_snapshot :: FinancialData where
  "cash_burning_snapshot =
     default_FinancialData
       \<lparr>income_statement := default_IncomeStatement\<lparr>revenue := 1000, net_income := 100\<rparr>,
        cash_flow := default_CashFlowStatement\<lparr>operating_cash_flow := - 50\<rparr>,
        is_valid := True\<rparr>"

text \<open>A period with a profit of 200 and an operating cash flow of 100.\<close>

definition accrual_heavy_snapshot :: FinancialData where
  "accrual_heavy_snapshot =
     default_FinancialData
       \<lparr>income_statement := default_IncomeStatement\<lparr>revenue := 1000, net_income := 200\<rparr>,
        cash_flow := default_CashFlowStatement\<lparr>operating_cash_flow := 100\<rparr>,
        is_valid := True\<rparr>"

text \<open>
  Two snapshots with current assets 300 and property, plant and equipment 200: one with no
  total assets recorded, one with total assets 1000.
\<close>

definition no_assets_snapshot :: FinancialData where
  "no_assets_snapshot =
     default_FinancialData
       \<lparr>balance_sheet := default_BalanceSheet\<lparr>current_assets := 300, ppe := 200\<rparr>\<rparr>"

definition half_current_snapshot :: FinancialData where
  "half_current_snapshot =
     default_FinancialData
       \<lparr>balance_sheet := default_BalanceSheet
          \<lparr>total_assets := 1000, current_assets := 300, ppe := 200\<rparr>,
        is_valid := True\<rparr>"

text \<open>
  Two periods with a gross profit of 40: one on a revenue of 100, one with no revenue
  recorded.
\<close>

definition margin_snapshot :: FinancialData where
  "margin_snapshot =
     default_FinancialData
       \<lparr>income_statement := default_IncomeStatement\<lparr>revenue := 100, gross_profit := 40\<rparr>,
        is_valid := True\<rparr>"

definition no_revenue_snapshot :: FinancialData where
  "no_revenue_snapshot =
     default_FinancialData
       \<lparr>income_statement := default_IncomeStatement\<lparr>gross_profit := 40\<rparr>\<rparr>"

text \<open>A snapshot with the given revenue and every other figure 0.\<close>

definition snapshot_with_revenue :: "real \<Rightarrow> FinancialData" where
  "snapshot_with_revenue r =
     default_FinancialData
       \<lparr>income_statement := default_IncomeStatement\<lparr>revenue := r\<rparr>, is_valid := True\<rparr>"

text \<open>
  The period before the scenario's: total assets 950, current assets 550, current
  liabilities 380, retained earnings 180, operating income 120, total equity 470, total
  liabilities 480 and revenue 800.
\<close>

definition prior_year_snapshot :: FinancialData where
  "prior_year_snapshot =
     default_FinancialData
       \<lparr>balance_sheet := default_BalanceSheet
          \<lparr>total_assets := 950, current_assets := 550, current_liabilities := 380,
           retained_earnings := 180, total_equity := 470, total_liabilities := 480\<rparr>,
        income_statement := default_IncomeStatement
          \<lparr>revenue := 800, operating_income := 120\<rparr>,
        is_valid := True\<rparr>"

text \<open>An analyzer as its default constructor leaves it: the default weights, no error.\<close>

definition fresh_analyzer :: FraudAnalyzer where
  "fresh_analyzer = \<lparr>weights = default_RiskWeights, last_error = []\<rparr>"

subsection \<open>Readings of the specification, for comparison with the code\<close>

text \<open>
  The composite score with the risk contribution of the digit-distribution model taken as
  \<^verbatim>\<open>mad_to_risk\<close> of its MAD: the sum, over the models that ran, of weight times risk
  contribution, plus the red-flag weight times \<open>min(1, count / 5)\<close>, clamped to [0, 1].
\<close>

definition composite_score_with_mad_risk :: "RiskWeights \<Rightarrow> AnalysisResult \<Rightarrow> real" where
  "composite_score_with_mad_risk w result =
     clamp
       ((case beneish result of None \<Rightarrow> 0 | Some b \<Rightarrow> w_beneish w * beneish_risk_score b)
        + (case altman result of None \<Rightarrow> 0 | Some a \<Rightarrow> w_altman w * altman_risk_score a)
        + (case piotroski result of None \<Rightarrow> 0 | Some p \<Rightarrow> w_piotroski w * piotroski_risk_score p)
        + (case fraud_triangle result of None \<Rightarrow> 0 | Some t \<Rightarrow> w_fraud_triangle w * overall_risk t)
        + (case benford result of None \<Rightarrow> 0 | Some d \<Rightarrow> w_benford w * mad_to_risk (mad d))
        + w_red_flags w * min 1 (real (length (red_flags result)) / 5))
       0 1"


text \<open>
  The asset-quality index with the default 1.0 in each of its three safe divisions, as a
  default of 1.0 for every ratio component would have it.
\<close>

definition calculate_aqi_default_one :: "FinancialData \<Rightarrow> FinancialData \<Rightarrow> real" where
  "calculate_aqi_default_one current prior =
     (let current_aq = 1 - beneish_safe_divide
                             (current_assets (balance_sheet current) + ppe (balance_sheet current))
                             (total_assets (balance_sheet current)) 1;
          prior_aq = 1 - beneish_safe_divide
                           (current_assets (balance_sheet prior) + ppe (balance_sheet prior))
                           (total_assets (balance_sheet prior)) 1
      in beneish_safe_divide current_aq prior_aq 1)"

text \<open>
  A strict majority of the comparisons of consecutive periods show a decrease in revenue,
  on a sequence ordered most-recent first: the newer period, at position \<open>i - 1\<close>, has a
  lower revenue than the older one, at position \<open>i\<close>. There are \<open>length financials - 1\<close>
  comparisons.
\<close>

definition majority_of_comparisons_decrease :: "FinancialData list \<Rightarrow> bool" where
  "majority_of_comparisons_decrease financials =
     (length financials - 1
        < 2 * length (filter
                (\<lambda>i. revenue (income_statement (financials ! (i - 1)))
                       < revenue (income_statement (financials ! i)))
                [1..<length financials]))"

section \<open>Properties\<close>

subsection \<open>Unfolding rules\<close>

lemmas default_defs = default_FinancialData_def default_BalanceSheet_def
  default_IncomeStatement_def default_CashFlowStatement_def default_Filing_def

lemmas altman_defs = altman_calculate_def calculate_x1_def calculate_x2_def calculate_x3_def
  calculate_x4_def calculate_x5_def altman_safe_divide_def COEF_X1_def COEF_X2_def COEF_X3_def
  COEF_X4_def COEF_X5_def altman_get_zone_def SAFE_THRESHOLD_def DISTRESS_THRESHOLD_def

lemmas beneish_ratio_defs = calculate_dsri_def calculate_gmi_def calculate_aqi_def
  calculate_sgi_def calculate_depi_def calculate_sgai_def calculate_lvgi_def calculate_tata_def

subsection \<open>The composite score and the risk level\<close>

text \<open>
  Claim C3. Whatever model results are present or absent in the result and whatever the
  configured weights are (non-negative or not), the composite risk score that
  \<^verbatim>\<open>calculate_composite_score\<close> returns lies in the interval from 0 to 1.
\<close>

theorem composite_score_in_unit_interval:
  "0 \<le> calculate_composite_score w result \<and> calculate_composite_score w result \<le> 1"
  by (simp add: calculate_composite_score_def Let_def min_def max_def)

text \<open>
  Claim C4. The risk level of a composite score is fixed by the thresholds: critical from
  0.8, high from 0.6, elevated from 0.4, moderate from 0.2 and low below; the five
  conditions exclude each other and cover every score, so each score has exactly one level.
  The level never goes down when the score goes up.
\<close>

theorem determine_risk_level_exhaustive_monotonic:
  "(determine_risk_level s = CRITICAL \<longleftrightarrow> 0.8 \<le> s)
   \<and> (determine_risk_level s = HIGH \<longleftrightarrow> 0.6 \<le> s \<and> s < 0.8)
   \<and> (determine_risk_level s = ELEVATED \<longleftrightarrow> 0.4 \<le> s \<and> s < 0.6)
   \<and> (determine_risk_level s = MODERATE \<longleftrightarrow> 0.2 \<le> s \<and> s < 0.4)
   \<and> (determine_risk_level s = LOW \<longleftrightarrow> s < 0.2)
   \<and> (s1 \<le> s2 \<longrightarrow>
        risk_level_value (determine_risk_level s1) \<le> risk_level_value (determine_risk_level s2))"
  by (simp add: determine_risk_level_def)

theorem determine_risk_level_witness:
  "determine_risk_level 0.3 = MODERATE \<and> determine_risk_level 0.7 = HIGH
   \<and> risk_level_value (determine_risk_level 0.3) \<le> risk_level_value (determine_risk_level 0.7)"
  using determine_risk_level_exhaustive_monotonic [of "0.3" "0.3" "0.7"]
        determine_risk_level_exhaustive_monotonic [of "0.7" "0.3" "0.7"]
  by simp

subsection \<open>The bankruptcy-risk model\<close>

text \<open>
  Claim C9. On a snapshot with total assets 1000, current assets 600, current liabilities
  400, retained earnings 200, operating income 150, total equity 500, total liabilities 500
  and revenue 900, and with market capitalisation 0, Variant A computes X1 = 0.2, X2 = 0.2,
  X3 = 0.15, X4 = 1.0 (from the book equity), X5 = 0.9 and the Z-score 2.515, and names the
  zone "Gray".
\<close>

theorem altman_scenario:
  assumes "total_assets (balance_sheet d) = 1000"
    and "current_assets (balance_sheet d) = 600"
    and "current_liabilities (balance_sheet d) = 400"
    and "retained_earnings (balance_sheet d) = 200"
    and "operating_income (income_statement d) = 150"
    and "total_equity (balance_sheet d) = 500"
    and "total_liabilities (balance_sheet d) = 500"
    and "revenue (income_statement d) = 900"
  shows "x1 (altman_calculate d 0) = 0.2 \<and> x2 (altman_calculate d 0) = 0.2
    \<and> x3 (altman_calculate d 0) = 0.15 \<and> x4 (altman_calculate d 0) = 1.0
    \<and> x5 (altman_calculate d 0) = 0.9 \<and> z_score (altman_calculate d 0) = 2.515
    \<and> altman_zone (altman_calculate d 0) = ''Gray''"
  using assms by (simp add: altman_defs Let_def)

theorem altman_scenario_witness:
  "x1 (altman_calculate scenario_snapshot 0) = 0.2
    \<and> x2 (altman_calculate scenario_snapshot 0) = 0.2
    \<and> x3 (altman_calculate scenario_snapshot 0) = 0.15
    \<and> x4 (altman_calculate scenario_snapshot 0) = 1.0
    \<and> x5 (altman_calculate scenario_snapshot 0) = 0.9
    \<and> z_score (altman_calculate scenario_snapshot 0) = 2.515
    \<and> altman_zone (altman_calculate scenario_snapshot 0) = ''Gray''"
  using altman_scenario [of scenario_snapshot]
  by (simp add: scenario_snapshot_def default_defs)

text \<open>
  Claim C8, as stated, fails: Variant B does not divide by the safe-division rule. On
  total assets of -1000 and a working capital of 200 its X1 is 0, where safe division
  (the denominator is not near zero) gives -0.2.
\<close>

theorem zprime_not_safe_division:
  "x1 (zprime_calculate negative_assets_snapshot)
     \<noteq> altman_safe_divide
         (current_assets (balance_sheet negative_assets_snapshot)
            - current_liabilities (balance_sheet negative_assets_snapshot))
         (total_assets (balance_sheet negative_assets_snapshot)) 0"
  by (simp add: zprime_calculate_def altman_safe_divide_def negative_assets_snapshot_def
      default_defs Let_def)

text \<open>
  Claim C8, amended. Safe division with default 0 gives 0 on a denominator below 1e-10 in
  absolute value and the ordinary quotient on every other denominator, negative ones
  included, and each of the five ratios of Variant A is such a division. Each of the four
  ratios of Variant B is the ordinary quotient when its denominator is positive and 0
  otherwise.
\<close>

theorem altman_variants_ratio_rules:
  "(\<bar>d1\<bar> < 1 / 10 ^ 10 \<longrightarrow> altman_safe_divide n1 d1 0 = 0)
   \<and> (\<bar>d2\<bar> \<ge> 1 / 10 ^ 10 \<longrightarrow> altman_safe_divide n2 d2 0 = n2 / d2)
   \<and> (let bs = balance_sheet data; st = income_statement data;
           a = altman_calculate data market_cap
       in x1 a = altman_safe_divide (current_assets bs - current_liabilities bs) (total_assets bs) 0
        \<and> x2 a = altman_safe_divide (retained_earnings bs) (total_assets bs) 0
        \<and> x3 a = altman_safe_divide (operating_income st) (total_assets bs) 0
        \<and> x4 a = altman_safe_divide (if market_cap > 0 then market_cap else total_equity bs)
                    (total_liabilities bs) 0
        \<and> x5 a = altman_safe_divide (revenue st) (total_assets bs) 0)
   \<and> (let bs = balance_sheet data; st = income_statement data;
           b = zprime_calculate data
       in x1 b = (if total_assets bs > 0
                  then (current_assets bs - current_liabilities bs) / total_assets bs else 0)
        \<and> x2 b = (if total_assets bs > 0 then retained_earnings bs / total_assets bs else 0)
        \<and> x3 b = (if total_assets bs > 0 then operating_income st / total_assets bs else 0)
        \<and> x4 b = (if total_liabilities bs > 0 then total_equity bs / total_liabilities bs
                  else 0))"
  by (simp add: altman_defs zprime_calculate_def Let_def)

theorem altman_variants_ratio_rules_witness:
  "altman_safe_divide 5 0 0 = 0 \<and> altman_safe_divide 6 (- 3) 0 = - 2
   \<and> x1 (altman_calculate negative_assets_snapshot 0) = - 0.2
   \<and> x1 (zprime_calculate negative_assets_snapshot) = 0
   \<and> x1 (zprime_calculate scenario_snapshot) = 0.2"
  using altman_variants_ratio_rules [of 0 5 "- 3" 6 negative_assets_snapshot 0]
        altman_variants_ratio_rules [of 0 5 "- 3" 6 scenario_snapshot 0]
  by (simp add: negative_assets_snapshot_def scenario_snapshot_def default_defs Let_def
      altman_safe_divide_def)

subsection \<open>The risk-factor heuristic model\<close>

text \<open>
  Claim C6, as stated, fails: a period with a net income of 100 and an operating cash flow
  of -50 has a net income above 1.5 times its operating cash flow, and the rationalization
  category does not report the aggressive-accounting indicator.
\<close>

theorem aggressive_accounting_counterexample:
  "net_income (income_statement cash_burning_snapshot)
     > 1.5 * operating_cash_flow (cash_flow cash_burning_snapshot)
   \<and> ''Aggressive accounting (income >> cash flow)''
       \<notin> set (detect_rationalization_indicators [cash_burning_snapshot])"
  by (simp add: detect_rationalization_indicators_def check_aggressive_accounting_def
      check_boundary_cases_def net_margin_def cash_burning_snapshot_def default_defs Let_def)

text \<open>
  Claim C6, amended. The rationalization category reports the aggressive-accounting
  indicator if and only if the sequence has a period whose net income and operating cash
  flow are both positive and whose net income is above 1.5 times its operating cash flow.
\<close>

theorem aggressive_accounting_indicator:
  "''Aggressive accounting (income >> cash flow)''
       \<in> set (detect_rationalization_indicators financials)
   \<longleftrightarrow> (\<exists>f \<in> set financials.
          net_income (income_statement f) > 0
          \<and> operating_cash_flow (cash_flow f) > 0
          \<and> net_income (income_statement f) > 1.5 * operating_cash_flow (cash_flow f))"
  by (auto simp add: detect_rationalization_indicators_def check_aggressive_accounting_def
      list_ex_iff mult.commute)

theorem aggressive_accounting_indicator_witness:
  "''Aggressive accounting (income >> cash flow)''
       \<in> set (detect_rationalization_indicators [cash_burning_snapshot, accrual_heavy_snapshot])"
  using aggressive_accounting_indicator [of "[cash_burning_snapshot, accrual_heavy_snapshot]"]
  by (simp add: accrual_heavy_snapshot_def cash_burning_snapshot_def default_defs)

text \<open>
  Claim C5, as stated, fails. On the sequence of revenues 100, 200, 150 (most recent first)
  one of the two comparisons shows a decrease, whichever of the two periods is taken as
  the newer one: that is half of the comparisons and not a majority, and the indicator
  triggers.
\<close>

theorem declining_revenue_tie_counterexample:
  "check_declining_revenue
     [snapshot_with_revenue 100, snapshot_with_revenue 200, snapshot_with_revenue 150]
   \<and> \<not> majority_of_comparisons_decrease
         [snapshot_with_revenue 100, snapshot_with_revenue 200, snapshot_with_revenue 150]"
  by (simp add: check_declining_revenue_def declining_revenue_periods_def
      majority_of_comparisons_decrease_def snapshot_with_revenue_def default_defs upt_rec)

text \<open>The threshold \<^verbatim>\<open>size / 2\<close> in terms of the \<open>n - 1\<close> comparisons.\<close>

lemma at_least_half: "2 \<le> n \<Longrightarrow> (int n div 2 \<le> k) = (int n - 1 \<le> 2 * k)"
  by presburger

lemma declining_revenue_periods_bounds:
  "0 \<le> declining_revenue_periods financials
   \<and> declining_revenue_periods financials \<le> int (length financials - 1)"
proof -
  have "length (filter
          (\<lambda>i. revenue (income_statement (financials ! i))
                 < revenue (income_statement (financials ! (i - 1))))
          [1..<length financials]) \<le> length [1..<length financials]"
    by (rule length_filter_le)
  then show ?thesis by (simp add: declining_revenue_periods_def)
qed

text \<open>
  Claim C5, amended. On a sequence of \<open>n \<ge> 2\<close> snapshots the pressure category reports
  the declining-revenue indicator exactly when at least half of the \<open>n - 1\<close> comparisons
  of consecutive periods are counted as declining by the check: twice the count reaches
  \<open>n - 1\<close>, so a tie is enough. (Which of the two periods has to be the lower one for a
  comparison to count is the loop's test, in \<^const>\<open>declining_revenue_periods\<close>.)
\<close>

theorem declining_revenue_at_least_half:
  assumes "2 \<le> length financials"
  shows "(''Declining revenue trend'' \<in> set (detect_pressure_indicators financials))
           = check_declining_revenue financials
   \<and> check_declining_revenue financials
       = (int (length financials) - 1 \<le> 2 * declining_revenue_periods financials)
   \<and> 0 \<le> declining_revenue_periods financials
   \<and> declining_revenue_periods financials \<le> int (length financials) - 1"
proof -
  from assms have ne: "financials \<noteq> []" by auto
  have a: "(''Declining revenue trend'' \<in> set (detect_pressure_indicators financials))
             = check_declining_revenue financials"
    using ne by (simp add: detect_pressure_indicators_def)
  have b: "check_declining_revenue financials
       = (int (length financials) - 1 \<le> 2 * declining_revenue_periods financials)"
    using assms by (simp add: check_declining_revenue_def Let_def at_least_half)
  have c: "0 \<le> declining_revenue_periods financials
     \<and> declining_revenue_periods financials \<le> int (length financials) - 1"
    using declining_revenue_periods_bounds [of financials] assms by simp
  from a b c show ?thesis by simp
qed

theorem declining_revenue_at_least_half_witness:
  "''Declining revenue trend''
     \<in> set (detect_pressure_indicators
         [snapshot_with_revenue 100, snapshot_with_revenue 200, snapshot_with_revenue 150])
   \<and> declining_revenue_periods
       [snapshot_with_revenue 100, snapshot_with_revenue 200, snapshot_with_revenue 150] = 1"
  using declining_revenue_at_least_half
          [of "[snapshot_with_revenue 100, snapshot_with_revenue 200, snapshot_with_revenue 150]"]
  by (simp add: declining_revenue_periods_def snapshot_with_revenue_def default_defs upt_rec)

text \<open>
  The loop's test on a sequence ordered most-recent first, as \<^verbatim>\<open>analyze_financials\<close>
  passes it: a revenue that fell from 200 to 100 is not counted, a revenue that rose from
  100 to 200 is.
\<close>

lemma declining_revenue_direction:
  "\<not> check_declining_revenue [snapshot_with_revenue 100, snapshot_with_revenue 200]
   \<and> check_declining_revenue [snapshot_with_revenue 200, snapshot_with_revenue 100]"
  by (simp add: check_declining_revenue_def declining_revenue_periods_def
      snapshot_with_revenue_def default_defs upt_rec)

subsection \<open>The earnings-manipulation model\<close>

text \<open>
  Claim C7, as stated, fails: not every safe division of a ratio component falls back to
  1.0. With no total assets in the current period the asset share inside the asset-quality
  index falls back to 0.0, which makes the index 2 on the input below; the fallback 1.0
  would make it 0.
\<close>

theorem aqi_default_counterexample:
  "calculate_aqi no_assets_snapshot half_current_snapshot = 2
   \<and> calculate_aqi_default_one no_assets_snapshot half_current_snapshot = 0"
  by (simp add: calculate_aqi_def calculate_aqi_default_one_def beneish_safe_divide_def
      no_assets_snapshot_def half_current_snapshot_def default_defs Let_def)

text \<open>
  Claim C7, amended. Safe division returns the quotient when the denominator is at least
  1e-10 in absolute value and the default it is called with otherwise. The default is 1.0
  in every division of the receivables, sales-growth, depreciation, SG&A and leverage
  indices and in the final quotient of the gross-margin and asset-quality indices; it is
  0.0 in the accruals term and in the two asset-share divisions inside the asset-quality
  index. The two gross margins inside the gross-margin index are not safe divisions: each
  is gross profit over revenue when the revenue is positive and 0.0 otherwise. So the
  gross-margin index is 1.0 when the current period has no positive revenue, and 0.0 when
  the prior period has none and the current margin is not near zero.
\<close>

theorem beneish_safe_divide_defaults:
  "(\<bar>d1\<bar> \<ge> 1 / 10 ^ 10 \<longrightarrow> beneish_safe_divide n1 d1 dv = n1 / d1)
   \<and> (\<bar>d2\<bar> < 1 / 10 ^ 10 \<longrightarrow> beneish_safe_divide n2 d2 dv = dv)
   \<and> (let cb = balance_sheet c; ci = income_statement c;
           pb = balance_sheet p; pi' = income_statement p
       in calculate_dsri c p =
            beneish_safe_divide (beneish_safe_divide (accounts_receivable cb) (revenue ci) 1)
              (beneish_safe_divide (accounts_receivable pb) (revenue pi') 1) 1
        \<and> calculate_gmi c p =
            beneish_safe_divide
              (if revenue pi' > 0 then gross_profit pi' / revenue pi' else 0)
              (if revenue ci > 0 then gross_profit ci / revenue ci else 0) 1
        \<and> calculate_aqi c p =
            beneish_safe_divide
              (1 - beneish_safe_divide (current_assets cb + ppe cb) (total_assets cb) 0)
              (1 - beneish_safe_divide (current_assets pb + ppe pb) (total_assets pb) 0) 1
        \<and> calculate_sgi c p = beneish_safe_divide (revenue ci) (revenue pi') 1
        \<and> calculate_depi c p =
            beneish_safe_divide
              (beneish_safe_divide (depreciation pi') (depreciation pi' + ppe pb) 1)
              (beneish_safe_divide (depreciation ci) (depreciation ci + ppe cb) 1) 1
        \<and> calculate_sgai c p =
            beneish_safe_divide (beneish_safe_divide (sga_expense ci) (revenue ci) 1)
              (beneish_safe_divide (sga_expense pi') (revenue pi') 1) 1
        \<and> calculate_lvgi c p =
            beneish_safe_divide (beneish_safe_divide (total_liabilities cb) (total_assets cb) 1)
              (beneish_safe_divide (total_liabilities pb) (total_assets pb) 1) 1
        \<and> calculate_tata c =
            beneish_safe_divide (net_income ci - operating_cash_flow (cash_flow c))
              (total_assets cb) 0)
   \<and> (\<bar>revenue (income_statement p)\<bar> < 1 / 10 ^ 10 \<longrightarrow> calculate_sgi c p = 1)
   \<and> (\<bar>total_assets (balance_sheet c)\<bar> < 1 / 10 ^ 10 \<longrightarrow>
        calculate_tata c = 0
        \<and> calculate_aqi c p =
            beneish_safe_divide 1
              (1 - beneish_safe_divide (current_assets (balance_sheet p) + ppe (balance_sheet p))
                     (total_assets (balance_sheet p)) 0) 1)
   \<and> (revenue (income_statement c) \<le> 0 \<longrightarrow> calculate_gmi c p = 1)
   \<and> (revenue (income_statement p) \<le> 0
        \<and> revenue (income_statement c) > 0
        \<and> \<bar>gross_profit (income_statement c) / revenue (income_statement c)\<bar> \<ge> 1 / 10 ^ 10
        \<longrightarrow> calculate_gmi c p = 0)"
  by (simp add: beneish_ratio_defs gross_margin_def Let_def beneish_safe_divide_def)

theorem beneish_safe_divide_defaults_witness:
  "beneish_safe_divide 6 3 1 = 2 \<and> beneish_safe_divide 6 0 1 = 1
   \<and> calculate_sgi no_assets_snapshot no_assets_snapshot = 1
   \<and> calculate_lvgi no_assets_snapshot no_assets_snapshot = 1
   \<and> calculate_gmi no_assets_snapshot no_assets_snapshot = 1
   \<and> calculate_aqi no_assets_snapshot half_current_snapshot = 2
   \<and> calculate_tata no_assets_snapshot = 0
   \<and> calculate_gmi margin_snapshot no_revenue_snapshot = 0"
  using beneish_safe_divide_defaults [of 3 6 1 0 6 no_assets_snapshot no_assets_snapshot]
        beneish_safe_divide_defaults [of 3 6 1 0 6 no_assets_snapshot half_current_snapshot]
        beneish_safe_divide_defaults [of 3 6 1 0 6 margin_snapshot no_revenue_snapshot]
  by (simp add: Let_def beneish_safe_divide_def no_assets_snapshot_def
      half_current_snapshot_def margin_snapshot_def no_revenue_snapshot_def default_defs)

text \<open>
  The gross-margin index on a current margin of 0.4 and a prior period with no revenue: the
  prior margin is 0, so the index is 0; a fallback of 1.0 for the prior margin would make
  it 5/2.
\<close>

lemma gmi_margin_guard:
  "gross_margin (income_statement no_revenue_snapshot) = 0
   \<and> gross_margin (income_statement margin_snapshot) = 2 / 5
   \<and> calculate_gmi margin_snapshot no_revenue_snapshot = 0
   \<and> beneish_safe_divide 1 (gross_margin (income_statement margin_snapshot)) 1 = 5 / 2"
  by (simp add: calculate_gmi_def gross_margin_def beneish_safe_divide_def Let_def
      margin_snapshot_def no_revenue_snapshot_def default_defs)

subsection \<open>The digit-distribution model\<close>

text \<open>The digit loops end on every value that passes the filter, so every call returns.\<close>

lemma first_digit_loop_down_ge_one: "1 \<le> v \<Longrightarrow> 1 \<le> first_digit_loop_down v"
proof (induction v rule: first_digit_loop_down.induct)
  case (1 v)
  show ?case
  proof (cases "10 \<le> v")
    case True
    then have "1 \<le> v / 10" by simp
    with "1.IH" True have "1 \<le> first_digit_loop_down (v / 10)" by simp
    with True show ?thesis by (subst first_digit_loop_down.simps) simp
  next
    case False
    with "1.prems" show ?thesis by (subst first_digit_loop_down.simps) simp
  qed
qed

lemma first_digit_loop_up_ge_one: "1 \<le> v \<Longrightarrow> first_digit_loop_up v = Some v"
  by (subst first_digit_loop_up.simps) simp

lemma extract_first_digit_returns: "\<exists>k. extract_first_digit v = Some k"
proof (cases v)
  case (Finite r)
  show ?thesis
  proof (cases "1 \<le> \<bar>r\<bar>")
    case True
    then have "first_digit_loop_up (first_digit_loop_down \<bar>r\<bar>) = Some (first_digit_loop_down \<bar>r\<bar>)"
      by (intro first_digit_loop_up_ge_one first_digit_loop_down_ge_one)
    with Finite True show ?thesis by (simp add: Let_def)
  next
    case False
    with Finite show ?thesis by simp
  qed
qed simp_all

lemma extract_first_digit_invalid: "\<not> is_valid_value v \<Longrightarrow> extract_first_digit v = Some 0"
  by (cases v) simp_all

lemma count_first_digits_returns: "\<exists>acc'. count_first_digits vs acc = Some acc'"
proof (induction vs arbitrary: acc)
  case Nil
  show ?case by simp
next
  case (Cons v vs)
  obtain counts n where acc: "acc = (counts, n)" by (cases acc)
  obtain k where k: "extract_first_digit v = Some k"
    using extract_first_digit_returns by blast
  show ?case using Cons.IH acc k by simp
qed

lemma count_first_digits_invalid:
  "\<forall>v \<in> set vs. \<not> is_valid_value v \<Longrightarrow> count_first_digits vs acc = Some acc"
proof (induction vs arbitrary: acc)
  case Nil
  show ?case by simp
next
  case (Cons v vs)
  obtain counts n where acc: "acc = (counts, n)" by (cases acc)
  from Cons.prems have "extract_first_digit v = Some 0"
    by (simp add: extract_first_digit_invalid)
  with Cons acc show ?case by simp
qed

lemma calculate_actual_distribution_returns: "\<exists>a. calculate_actual_distribution vs = Some a"
proof -
  obtain acc' where "count_first_digits vs ([0, 0, 0, 0, 0, 0, 0, 0, 0], 0) = Some acc'"
    using count_first_digits_returns by blast
  then show ?thesis by (cases acc') (simp add: calculate_actual_distribution_def)
qed

lemma benford_calculate_returns: "\<exists>r. benford_calculate vs = Some r"
proof -
  obtain a where "calculate_actual_distribution vs = Some a"
    using calculate_actual_distribution_returns by blast
  then show ?thesis by (simp add: benford_calculate_def Let_def)
qed

lemma calculate_actual_distribution_invalid:
  assumes "\<forall>v \<in> set vs. \<not> is_valid_value v"
  shows "calculate_actual_distribution vs = Some (replicate 9 0)"
proof -
  have "count_first_digits vs ([0, 0, 0, 0, 0, 0, 0, 0, 0], 0)
          = Some ([0, 0, 0, 0, 0, 0, 0, 0, 0], 0)"
    using assms by (rule count_first_digits_invalid)
  then show ?thesis
    by (simp add: calculate_actual_distribution_def map_replicate_const)
qed

lemma filter_invalid: "\<forall>v \<in> set vs. \<not> is_valid_value v \<Longrightarrow> filter is_valid_value vs = []"
  by (simp add: filter_empty_conv)

text \<open>
  Claim C10. On an input with no valid value (none that is finite with an absolute value of
  at least 1; the empty input is one) \<^verbatim>\<open>calculate\<close> returns, with chi-square 0, MAD 0, no
  anomaly, \<^verbatim>\<open>is_suspicious\<close> false and an actual distribution of nine zeros.
\<close>

theorem benford_no_valid_value:
  assumes "\<forall>v \<in> set vs. \<not> is_valid_value v"
  shows "\<exists>r. benford_calculate vs = Some r
           \<and> chi_square r = 0 \<and> mad r = 0 \<and> anomalies r = [] \<and> \<not> is_suspicious r
           \<and> actual_distribution r = replicate 9 0"
  using assms
  by (simp add: benford_calculate_def calculate_actual_distribution_invalid filter_invalid
      benford_is_suspicious_def MAD_MARGINALLY_ACCEPTABLE_def Let_def)

theorem benford_no_valid_value_witness:
  "\<exists>r. benford_calculate [Finite 0, Finite 0.5, NaN, PosInf, Finite (- 0.25), NegInf] = Some r
         \<and> chi_square r = 0 \<and> mad r = 0 \<and> anomalies r = [] \<and> \<not> is_suspicious r
         \<and> actual_distribution r = [0, 0, 0, 0, 0, 0, 0, 0, 0]"
  using benford_no_valid_value [of "[Finite 0, Finite 0.5, NaN, PosInf, Finite (- 0.25), NegInf]"]
  by (simp add: eval_nat_numeral)

subsection \<open>The aggregator\<close>

text \<open>
  The shape of an analysis: what \<^verbatim>\<open>analyze_financials\<close> returns on fewer than two
  snapshots, and which fields it fills on two or more. The red flags and the composite
  score read the model results only, so the later assignments do not change them.
\<close>

lemma min_max_clamp: "min 1 (max 0 v) = clamp v 0 1"
  by (simp add: clamp_def min_def max_def)

lemma analyze_financials_short:
  assumes "length fs < 2"
  shows "\<exists>r. analyze_financials self ts fs c
                = Some (r, self\<lparr>last_error := ''Insufficient financial data for analysis''\<rparr>)
             \<and> beneish r = None \<and> altman r = None \<and> piotroski r = None
             \<and> fraud_triangle r = None \<and> benford r = None"
  using assms by (simp add: analyze_financials_def Let_def default_AnalysisResult_def)

lemma detect_red_flags_update [simp]:
  "detect_red_flags (r\<lparr>red_flags := v1\<rparr>) = detect_red_flags r"
  "detect_red_flags (r\<lparr>trends := v2\<rparr>) = detect_red_flags r"
  "detect_red_flags (r\<lparr>composite_risk_score := v3\<rparr>) = detect_red_flags r"
  "detect_red_flags (r\<lparr>overall_risk_level := v4\<rparr>) = detect_red_flags r"
  "detect_red_flags (r\<lparr>recommendation := v5\<rparr>) = detect_red_flags r"
  "detect_red_flags (r\<lparr>risk_summary := v6\<rparr>) = detect_red_flags r"
  by (simp_all add: detect_red_flags_def)

lemma calculate_composite_score_update [simp]:
  "calculate_composite_score w (r\<lparr>composite_risk_score := v3\<rparr>) = calculate_composite_score w r"
  "calculate_composite_score w (r\<lparr>overall_risk_level := v4\<rparr>) = calculate_composite_score w r"
  "calculate_composite_score w (r\<lparr>recommendation := v5\<rparr>) = calculate_composite_score w r"
  "calculate_composite_score w (r\<lparr>risk_summary := v6\<rparr>) = calculate_composite_score w r"
  "calculate_composite_score w (r\<lparr>trends := v2\<rparr>) = calculate_composite_score w r"
  by (simp_all add: calculate_composite_score_def)

lemma analyze_financials_models:
  assumes "2 \<le> length fs" and "benford_calculate (extract_all_values fs) = Some d"
  shows "\<exists>r. analyze_financials self ts fs c = Some (r, self)
             \<and> beneish r = Some (beneish_calculate (fs ! 0) (fs ! 1))
             \<and> altman r = Some (altman_calculate (fs ! 0) 0)
             \<and> piotroski r = Some (piotroski_calculate (fs ! 0) (fs ! 1))
             \<and> fraud_triangle r = Some (fraud_triangle_calculate fs)
             \<and> benford r = Some d
             \<and> red_flags r = detect_red_flags r
             \<and> composite_risk_score r = calculate_composite_score (weights self) r
             \<and> overall_risk_level r = determine_risk_level (composite_risk_score r)"
  using assms
  by (simp add: analyze_financials_def Let_def split del: if_split)

lemma calculate_composite_score_sum:
  "calculate_composite_score w result =
     clamp
       ((case beneish result of None \<Rightarrow> 0 | Some b \<Rightarrow> w_beneish w * beneish_risk_score b)
        + (case altman result of None \<Rightarrow> 0 | Some a \<Rightarrow> w_altman w * altman_risk_score a)
        + (case piotroski result of None \<Rightarrow> 0 | Some p \<Rightarrow> w_piotroski w * piotroski_risk_score p)
        + (case fraud_triangle result of None \<Rightarrow> 0 | Some t \<Rightarrow> w_fraud_triangle w * overall_risk t)
        + (case benford result of None \<Rightarrow> 0
           | Some d \<Rightarrow> w_benford w * (if is_suspicious d then 0.8 else 0.2))
        + w_red_flags w * min 1 (real (length (red_flags result)) / 5))
       0 1"
  by (simp add: calculate_composite_score_def Let_def min_max_clamp split: option.split)

text \<open>
  The analysis of the scenario's snapshot with the period before it, model by model.
\<close>

lemma beneish_risk_score_bounds:
  "0 \<le> beneish_risk_score (beneish_calculate c p) \<and> beneish_risk_score (beneish_calculate c p) \<le> 1"
  by (simp add: beneish_calculate_def Let_def beneish_probability_to_risk_def clamp_def)

lemma example_ratios:
  "calculate_dsri scenario_snapshot prior_year_snapshot = 1"
  "calculate_gmi scenario_snapshot prior_year_snapshot = 1"
  "calculate_aqi scenario_snapshot prior_year_snapshot = 19 / 20"
  "calculate_sgi scenario_snapshot prior_year_snapshot = 9 / 8"
  "calculate_depi scenario_snapshot prior_year_snapshot = 1"
  "calculate_sgai scenario_snapshot prior_year_snapshot = 1"
  "calculate_lvgi scenario_snapshot prior_year_snapshot = 95 / 96"
  "calculate_tata scenario_snapshot = 0"
  by (simp_all add: beneish_ratio_defs beneish_safe_divide_def gross_margin_def Let_def
      scenario_snapshot_def prior_year_snapshot_def default_defs)

lemma example_not_manipulator:
  "\<not> likely_manipulator (beneish_calculate scenario_snapshot prior_year_snapshot)"
  by (simp add: beneish_calculate_def Let_def example_ratios is_likely_manipulator_def
      THRESHOLD_def INTERCEPT_def COEF_DSRI_def COEF_GMI_def COEF_AQI_def COEF_SGI_def
      COEF_DEPI_def COEF_SGAI_def COEF_TATA_def COEF_LVGI_def)

lemma example_altman:
  "z_score (altman_calculate scenario_snapshot 0) = 2.515"
  "altman_risk_score (altman_calculate scenario_snapshot 0) = 0.1"
  by (simp_all add: altman_defs altman_score_to_probability_def altman_probability_to_risk_def
      clamp_def Let_def scenario_snapshot_def default_defs)

lemma example_piotroski:
  "f_score (piotroski_calculate scenario_snapshot prior_year_snapshot) = 3"
  "piotroski_risk_score (piotroski_calculate scenario_snapshot prior_year_snapshot) = 2 / 3"
  by (simp_all add: piotroski_calculate_def Let_def check_roa_positive_def check_cfo_positive_def
      check_roa_increasing_def check_quality_of_earnings_def check_leverage_decreasing_def
      check_liquidity_increasing_def check_no_dilution_def check_gross_margin_increasing_def
      check_asset_turnover_increasing_def calculate_roa_def calculate_leverage_def
      calculate_current_ratio_def calculate_gross_margin_def calculate_asset_turnover_def
      score_to_risk_def clamp_def scenario_snapshot_def prior_year_snapshot_def default_defs)

lemma example_fraud_triangle:
  "overall_risk (fraud_triangle_calculate [scenario_snapshot, prior_year_snapshot]) = 7 / 100"
  by (simp add: fraud_triangle_calculate_def Let_def calculate_pressure_score_def
      calculate_opportunity_score_def calculate_rationalization_score_def normalize_score_def
      clamp_def detect_pressure_indicators_def detect_opportunity_indicators_def
      detect_rationalization_indicators_def check_declining_revenue_def
      declining_revenue_periods_def check_declining_margins_def check_high_leverage_def check_negative_cash_flow_def
      check_earnings_miss_pattern_def check_complex_structure_def
      check_unusual_transactions_def check_estimate_changes_def
      check_aggressive_accounting_def check_boundary_cases_def debt_ratio_def
      gross_margin_def net_margin_def PRESSURE_WEIGHT_def OPPORTUNITY_WEIGHT_def
      RATIONALIZATION_WEIGHT_def scenario_snapshot_def prior_year_snapshot_def default_defs
      upt_rec)

lemma example_values:
  "extract_all_values [scenario_snapshot, prior_year_snapshot]
     = [Finite 900, Finite 0, Finite 1000, Finite 500, Finite 0,
        Finite 800, Finite 0, Finite 950, Finite 480, Finite 0]"
  by (simp add: extract_all_values_def scenario_snapshot_def prior_year_snapshot_def
      default_defs)

lemma example_digits:
  "extract_first_digit (Finite 900) = Some 9"
  "extract_first_digit (Finite 0) = Some 0"
  "extract_first_digit (Finite 1000) = Some 1"
  "extract_first_digit (Finite 500) = Some 5"
  "extract_first_digit (Finite 800) = Some 8"
  "extract_first_digit (Finite 950) = Some 9"
  "extract_first_digit (Finite 480) = Some 4"
  by (simp_all add: first_digit_loop_down.simps first_digit_loop_up.simps Let_def)

lemma example_actual_distribution:
  "calculate_actual_distribution
     [Finite 900, Finite 0, Finite 1000, Finite 500, Finite 0,
      Finite 800, Finite 0, Finite 950, Finite 480, Finite 0]
     = Some [1 / 6, 0, 0, 1 / 6, 1 / 6, 0, 0, 1 / 6, 1 / 3]"
  by (simp add: calculate_actual_distribution_def example_digits upt_rec eval_nat_numeral
      del: extract_first_digit.simps)

lemma example_benford:
  "\<exists>d. benford_calculate (extract_all_values [scenario_snapshot, prior_year_snapshot]) = Some d
        \<and> is_suspicious d \<and> mad_to_risk (mad d) = 1"
  by (simp add: example_values benford_calculate_def example_actual_distribution Let_def
      calculate_mad_def get_expected_distribution_def EXPECTED_def benford_is_suspicious_def
      MAD_MARGINALLY_ACCEPTABLE_def mad_to_risk_def clamp_def upt_rec)

text \<open>
  Claim C1, as stated, fails. In the analysis of the two snapshots above under the default
  weights the digit-distribution model is suspicious with a MAD above 0.02: the claim's
  risk contribution is 1, the code adds the weight times 0.8, and neither sum is clamped.
\<close>

theorem composite_score_mad_counterexample:
  "\<exists>r. analyze_financials fresh_analyzer ''2025-01-01T00:00:00Z''
          [scenario_snapshot, prior_year_snapshot] default_CompanyInfo
        = Some (r, fresh_analyzer)
      \<and> composite_risk_score r \<noteq> composite_score_with_mad_risk (weights fresh_analyzer) r"
proof -
  let ?fs = "[scenario_snapshot, prior_year_snapshot]"
  let ?rb = "beneish_risk_score (beneish_calculate scenario_snapshot prior_year_snapshot)"
  obtain d where d: "benford_calculate (extract_all_values ?fs) = Some d"
    and susp: "is_suspicious d" and risk: "mad_to_risk (mad d) = 1"
    using example_benford by blast
  obtain r where run: "analyze_financials fresh_analyzer ''2025-01-01T00:00:00Z'' ?fs
                         default_CompanyInfo = Some (r, fresh_analyzer)"
    and b: "beneish r = Some (beneish_calculate scenario_snapshot prior_year_snapshot)"
    and a: "altman r = Some (altman_calculate scenario_snapshot 0)"
    and p: "piotroski r = Some (piotroski_calculate scenario_snapshot prior_year_snapshot)"
    and t: "fraud_triangle r = Some (fraud_triangle_calculate ?fs)"
    and bf: "benford r = Some d"
    and fl: "red_flags r = detect_red_flags r"
    and cs: "composite_risk_score r = calculate_composite_score (weights fresh_analyzer) r"
    using analyze_financials_models [of ?fs d fresh_analyzer "''2025-01-01T00:00:00Z''"
        default_CompanyInfo] d
    by auto
  have "length (detect_red_flags r) = 2"
    by (simp add: detect_red_flags_def b a p t bf susp example_not_manipulator example_altman
        example_piotroski example_fraud_triangle)
  with fl have n: "length (red_flags r) = 2" by simp
  have code: "composite_risk_score r = min 1 (max 0 (3 / 10 * ?rb + 431 / 2000))"
    by (simp add: cs calculate_composite_score_def Let_def b a p t bf susp n example_altman
        example_piotroski example_fraud_triangle fresh_analyzer_def default_RiskWeights_def
        add.commute)
  have claimed: "composite_score_with_mad_risk (weights fresh_analyzer) r
                   = clamp (3 / 10 * ?rb + 451 / 2000) 0 1"
    by (simp add: composite_score_with_mad_risk_def b a p t bf risk n example_altman
        example_piotroski example_fraud_triangle fresh_analyzer_def default_RiskWeights_def
        add.commute)
  have "0 \<le> ?rb" and "?rb \<le> 1" using beneish_risk_score_bounds by blast+
  then have "composite_risk_score r \<noteq> composite_score_with_mad_risk (weights fresh_analyzer) r"
    unfolding code claimed by (simp add: clamp_def min_def max_def)
  with run show ?thesis by blast
qed

text \<open>
  Claim C1, amended. Every analysis of two or more snapshots returns with all five model
  results present, and its composite risk score is the sum of each model's weight times
  its risk contribution, plus the red-flag weight times \<open>min(1, red_flag_count / 5)\<close>,
  clamped to [0, 1], where the risk contribution of the digit-distribution model is 0.8
  when the model reports \<^verbatim>\<open>is_suspicious\<close> and 0.2 otherwise.
\<close>

theorem composite_score_of_analysis:
  assumes "2 \<le> length fs"
  shows "\<exists>r b a p t d.
           analyze_financials self ts fs c = Some (r, self)
           \<and> beneish r = Some b \<and> altman r = Some a \<and> piotroski r = Some p
           \<and> fraud_triangle r = Some t \<and> benford r = Some d
           \<and> composite_risk_score r =
               clamp
                 (w_beneish (weights self) * beneish_risk_score b
                  + w_altman (weights self) * altman_risk_score a
                  + w_piotroski (weights self) * piotroski_risk_score p
                  + w_fraud_triangle (weights self) * overall_risk t
                  + w_benford (weights self) * (if is_suspicious d then 0.8 else 0.2)
                  + w_red_flags (weights self) * min 1 (real (length (red_flags r)) / 5))
                 0 1"
proof -
  obtain d where d: "benford_calculate (extract_all_values fs) = Some d"
    using benford_calculate_returns by blast
  obtain r where run: "analyze_financials self ts fs c = Some (r, self)"
    and b: "beneish r = Some (beneish_calculate (fs ! 0) (fs ! 1))"
    and a: "altman r = Some (altman_calculate (fs ! 0) 0)"
    and p: "piotroski r = Some (piotroski_calculate (fs ! 0) (fs ! 1))"
    and t: "fraud_triangle r = Some (fraud_triangle_calculate fs)"
    and bf: "benford r = Some d"
    and cs: "composite_risk_score r = calculate_composite_score (weights self) r"
    using analyze_financials_models [OF assms d, of self ts c] by auto
  show ?thesis
    using run b a p t bf by (simp add: cs calculate_composite_score_sum)
qed

theorem composite_score_of_analysis_witness:
  "\<exists>r b a p t d.
     analyze_financials fresh_analyzer ''2025-01-01T00:00:00Z''
         [scenario_snapshot, prior_year_snapshot] default_CompanyInfo
       = Some (r, fresh_analyzer)
     \<and> beneish r = Some b \<and> altman r = Some a \<and> piotroski r = Some p
     \<and> fraud_triangle r = Some t \<and> benford r = Some d
     \<and> composite_risk_score r =
         clamp
           (0.30 * beneish_risk_score b + 0.25 * altman_risk_score a
            + 0.15 * piotroski_risk_score p + 0.15 * overall_risk t
            + 0.05 * (if is_suspicious d then 0.8 else 0.2)
            + 0.10 * min 1 (real (length (red_flags r)) / 5))
           0 1"
  using composite_score_of_analysis
          [of "[scenario_snapshot, prior_year_snapshot]" fresh_analyzer
             "''2025-01-01T00:00:00Z''" default_CompanyInfo]
  by (simp add: fresh_analyzer_def default_RiskWeights_def)

text \<open>
  Claim C2, as stated, fails: the validity flag is not read. Two default-constructed
  snapshots, both flagged invalid, are analysed: all five model results are present and
  the analyzer records no error.
\<close>

theorem invalid_snapshots_counterexample:
  "length (filter is_valid [default_FinancialData, default_FinancialData]) < 2
   \<and> \<not> has_error fresh_analyzer
   \<and> (\<exists>r. analyze_financials fresh_analyzer ''2025-01-01T00:00:00Z''
              [default_FinancialData, default_FinancialData] default_CompanyInfo
            = Some (r, fresh_analyzer)
          \<and> beneish r \<noteq> None \<and> altman r \<noteq> None \<and> piotroski r \<noteq> None
          \<and> fraud_triangle r \<noteq> None \<and> benford r \<noteq> None)"
proof -
  let ?fs = "[default_FinancialData, default_FinancialData]"
  obtain d where d: "benford_calculate (extract_all_values ?fs) = Some d"
    using benford_calculate_returns by blast
  have "\<exists>r. analyze_financials fresh_analyzer ''2025-01-01T00:00:00Z'' ?fs default_CompanyInfo
            = Some (r, fresh_analyzer)
          \<and> beneish r \<noteq> None \<and> altman r \<noteq> None \<and> piotroski r \<noteq> None
          \<and> fraud_triangle r \<noteq> None \<and> benford r \<noteq> None"
    using analyze_financials_models [of ?fs d fresh_analyzer "''2025-01-01T00:00:00Z''"
        default_CompanyInfo] d
    by auto
  then show ?thesis
    by (simp add: default_FinancialData_def has_error_def fresh_analyzer_def)
qed

text \<open>
  Claim C2, amended. On fewer than two snapshots, valid or not, the result has none of the
  five model results and the analyzer's last error is set to "Insufficient financial data
  for analysis". On two or more snapshots, valid or not, the call returns a result with
  all five model results and leaves the last error as it was. The call returns on every
  input: no figure, zero denominators included, makes a model fail.
\<close>

theorem analyze_financials_insufficient_data:
  "(length fs < 2 \<longrightarrow>
      (\<exists>r. analyze_financials self ts fs c
              = Some (r, self\<lparr>last_error := ''Insufficient financial data for analysis''\<rparr>)
           \<and> beneish r = None \<and> altman r = None \<and> piotroski r = None
           \<and> fraud_triangle r = None \<and> benford r = None))
   \<and> (2 \<le> length fs \<longrightarrow>
      (\<exists>r. analyze_financials self ts fs c = Some (r, self)
           \<and> beneish r \<noteq> None \<and> altman r \<noteq> None \<and> piotroski r \<noteq> None
           \<and> fraud_triangle r \<noteq> None \<and> benford r \<noteq> None))"
proof (intro conjI impI)
  assume "length fs < 2"
  then show "\<exists>r. analyze_financials self ts fs c
              = Some (r, self\<lparr>last_error := ''Insufficient financial data for analysis''\<rparr>)
           \<and> beneish r = None \<and> altman r = None \<and> piotroski r = None
           \<and> fraud_triangle r = None \<and> benford r = None"
    by (rule analyze_financials_short)
next
  assume len: "2 \<le> length fs"
  obtain d where d: "benford_calculate (extract_all_values fs) = Some d"
    using benford_calculate_returns by blast
  show "\<exists>r. analyze_financials self ts fs c = Some (r, self)
           \<and> beneish r \<noteq> None \<and> altman r \<noteq> None \<and> piotroski r \<noteq> None
           \<and> fraud_triangle r \<noteq> None \<and> benford r \<noteq> None"
    using analyze_financials_models [OF len d, of self ts c] by auto
qed

theorem analyze_financials_insufficient_data_witness:
  "(\<exists>r. analyze_financials fresh_analyzer ''2025-01-01T00:00:00Z'' [scenario_snapshot]
            default_CompanyInfo
          = Some (r, fresh_analyzer\<lparr>last_error := ''Insufficient financial data for analysis''\<rparr>)
        \<and> beneish r = None \<and> altman r = None \<and> piotroski r = None
        \<and> fraud_triangle r = None \<and> benford r = None)
   \<and> (\<exists>r. analyze_financials fresh_analyzer ''2025-01-01T00:00:00Z''
            [scenario_snapshot, prior_year_snapshot] default_CompanyInfo
          = Some (r, fresh_analyzer)
        \<and> beneish r \<noteq> None \<and> altman r \<noteq> None \<and> piotroski r \<noteq> None
        \<and> fraud_triangle r \<noteq> None \<and> benford r \<noteq> None)"
  using analyze_financials_insufficient_data
          [of "[scenario_snapshot]" fresh_analyzer "''2025-01-01T00:00:00Z''" default_CompanyInfo]
        analyze_financials_insufficient_data
          [of "[scenario_snapshot, prior_year_snapshot]" fresh_analyzer
             "''2025-01-01T00:00:00Z''" default_CompanyInfo]
  by simp

end
